theory Spec2Isabelle
  imports Complex_Main
begin

section \<open>Risk OS dashboard: the risk calculation engine\<close>

text \<open>
  A shallow embedding of the risk engine of \<^verbatim>\<open>dashboard.py\<close>: the portfolio and
  trade-history tables, the exit pipeline, the expectancy aggregation, the open-risk
  formulas, the regime table and classifier, and the position sizer.

  Conventions of the embedding.
  \<^item> Python floats and SQLite \<^verbatim>\<open>REAL\<close> columns are \<^typ>\<open>real\<close>, \<^verbatim>\<open>INTEGER\<close> columns
    are \<^typ>\<open>int\<close>. The merge of \<^verbatim>\<open>add_position\<close> and the position sizer, whose results
    are compared with exact bounds and truncated to whole shares, round every float
    operation to the nearest double (\<open>fl\<close>). The other functions compute in exact
    arithmetic. The infinities and NaN that a division of data-frame columns by zero
    produces are values of their own (\<open>float64\<close>).
  \<^item> A raised exception is the left injection of a sum type. Python's \<^verbatim>\<open>/\<close> raises
    on a zero divisor, so it is \<open>py_div\<close>, or \<open>fl_div\<close> where the quotient is rounded,
    and never HOL's total division.
  \<^item> The SQLite database is a record of its three tables, passed in and returned.
  \<^item> Calls that only draw on the screen (toasts, metrics) are left out; a message that
    decides the outcome of a block is a constructor of its result type.
  \<^item> \<^verbatim>\<open>datetime.now()\<close> is a parameter of the operation that reads it.
  \<^item> Record fields carry the prefix of their table or dictionary (\<open>pf_\<close> for
    \<^verbatim>\<open>portfolio\<close>, \<open>th_\<close> for \<^verbatim>\<open>trade_history\<close>, \<open>ac_\<close> for \<^verbatim>\<open>account_config\<close>,
    \<open>rp_\<close> for the regime parameters, \<open>sz_\<close> for the sizer's results), so that the
    local variables of the source keep their names.
\<close>

subsection \<open>Errors and Python arithmetic\<close>

datatype error = ZeroDivisionError | TypeError | KeyError

definition py_div :: "real \<Rightarrow> real \<Rightarrow> error + real" where
  "py_div a b = (if b = 0 then Inl ZeroDivisionError else Inr (a / b))"

text \<open>Sequencing: an exception raised by the first computation ends the whole one.\<close>

definition bind_err :: "error + 'a \<Rightarrow> ('a \<Rightarrow> error + 'b) \<Rightarrow> error + 'b" where
  "bind_err m f = (case m of Inl e \<Rightarrow> Inl e | Inr x \<Rightarrow> f x)"

text \<open>\<^verbatim>\<open>d[k]\<close> on a dictionary raises \<^verbatim>\<open>KeyError\<close> for a missing key.\<close>

definition dict_index :: "('k \<rightharpoonup> 'v) \<Rightarrow> 'k \<Rightarrow> error + 'v" where
  "dict_index d k = (case d k of None \<Rightarrow> Inl KeyError | Some v \<Rightarrow> Inr v)"

text \<open>\<^verbatim>\<open>int(x)\<close> on a float truncates towards zero.\<close>

definition py_int :: "real \<Rightarrow> int" where
  "py_int x = (if 0 \<le> x then \<lfloor>x\<rfloor> else \<lceil>x\<rceil>)"

subsection \<open>Double precision\<close>

text \<open>
  A Python float is an IEEE 754 double: a significand of 53 bits times a power of two.
  Every float operation returns the double nearest to the exact result, a tie going to
  the even significand. \<open>fl\<close> is that rounding. Its exponent is unbounded: overflow to
  an infinity (beyond about 1.8e308) and the subnormal numbers (below 2^-1022) are not
  modelled.
\<close>

definition pow2 :: "int \<Rightarrow> real" where
  "pow2 k = (if 0 \<le> k then 2 ^ nat k else 1 / 2 ^ nat (- k))"

text \<open>The binary exponent of a positive number: \<open>pow2 (ilog2 y) \<le> y < pow2 (ilog2 y + 1)\<close>.\<close>

function ilog2 :: "real \<Rightarrow> int" where
  "ilog2 y = (if y \<le> 0 then 0
              else if y < 1 then ilog2 (2 * y) - 1
              else if 2 \<le> y then ilog2 (y / 2) + 1
              else 0)"
  by pat_completeness auto
termination
proof (relation "measure (\<lambda>y. if y < 1 then nat \<lceil>1 / y\<rceil> + 2 else nat \<lceil>y\<rceil>)")
  show "wf (measure (\<lambda>y::real. if y < 1 then nat \<lceil>1 / y\<rceil> + 2 else nat \<lceil>y\<rceil>))"
    by simp
next
  fix y :: real
  assume a: "\<not> y \<le> 0" "y < 1"
  show "(2 * y, y) \<in> measure (\<lambda>y. if y < 1 then nat \<lceil>1 / y\<rceil> + 2 else nat \<lceil>y\<rceil>)"
  proof (cases "2 * y < 1")
    case True
    have "1 / y > 2" using a True by (simp add: field_simps)
    then have c: "\<lceil>1 / y\<rceil> \<ge> 3" by linarith
    have "1 / (2 * y) = (1 / y) / 2" by simp
    also have "\<dots> \<le> of_int \<lceil>1 / y\<rceil> / 2"
      by (intro divide_right_mono) simp_all
    finally have "\<lceil>1 / (2 * y)\<rceil> \<le> \<lceil>real_of_int \<lceil>1 / y\<rceil> / 2\<rceil>"
      by (rule ceiling_mono)
    also have "\<dots> < \<lceil>1 / y\<rceil>" using c by linarith
    finally show ?thesis using True a c by simp
  next
    case False
    then have "2 * y < 2" "1 \<le> 2 * y" using a by simp_all
    then have "\<lceil>2 * y\<rceil> \<le> 2" by linarith
    moreover have "1 / y > 1" using a by (simp add: field_simps)
    then have "\<lceil>1 / y\<rceil> \<ge> 2" by linarith
    ultimately have "nat \<lceil>2 * y\<rceil> < nat \<lceil>1 / y\<rceil> + 2" by linarith
    then show ?thesis using False a by simp
  qed
next
  fix y :: real
  assume a: "\<not> y \<le> 0" "\<not> y < 1" "2 \<le> y"
  have "\<lceil>y / 2\<rceil> < \<lceil>y\<rceil>" using a by linarith
  moreover have "\<lceil>y\<rceil> \<ge> 2" using a by linarith
  ultimately
  show "(y / 2, y) \<in> measure (\<lambda>y. if y < 1 then nat \<lceil>1 / y\<rceil> + 2 else nat \<lceil>y\<rceil>)"
    using a by simp
qed

declare ilog2.simps [simp del]

definition round_half_even :: "real \<Rightarrow> int" where
  "round_half_even z =
     (let n = \<lfloor>z\<rfloor>; d = z - of_int n
      in if d < 1 / 2 then n else if 1 / 2 < d then n + 1 else if even n then n else n + 1)"

definition fl :: "real \<Rightarrow> real" where
  "fl x = (if x = 0 then 0
           else let e = ilog2 \<bar>x\<bar> - 52 in of_int (round_half_even (x / pow2 e)) * pow2 e)"

text \<open>An \<^verbatim>\<open>int\<close> operand of a float operation is converted to the nearest double.\<close>

definition py_float :: "int \<Rightarrow> real" where
  "py_float n = fl (of_int n)"

text \<open>Float division: \<^verbatim>\<open>ZeroDivisionError\<close> on a zero divisor, the rounded quotient otherwise.\<close>

definition fl_div :: "real \<Rightarrow> real \<Rightarrow> error + real" where
  "fl_div a b = (if b = 0 then Inl ZeroDivisionError else Inr (fl (a / b)))"

subsection \<open>Values of a float column\<close>

text \<open>
  A pandas column of floats also holds the two infinities and NaN: dividing a column
  by a column does not raise on a zero divisor. Finite values are computed exactly.
\<close>

datatype float64 = Fin real | PInf | NInf | NaN

text \<open>The infinity with the sign of \<open>s\<close>; 0 times an infinity is NaN.\<close>

definition inf_times :: "real \<Rightarrow> float64" where
  "inf_times s = (if 0 < s then PInf else if s < 0 then NInf else NaN)"

text \<open>An integer column divided by an integer column (true division).\<close>

definition int_truediv :: "int \<Rightarrow> int \<Rightarrow> float64" where
  "int_truediv a b = (if b \<noteq> 0 then Fin (of_int a / of_int b) else inf_times (of_int a))"

definition fillna :: "real \<Rightarrow> float64 \<Rightarrow> float64" where
  "fillna v x = (case x of NaN \<Rightarrow> Fin v | _ \<Rightarrow> x)"

text \<open>A finite value times a column value.\<close>

fun scale64 :: "real \<Rightarrow> float64 \<Rightarrow> float64" where
  "scale64 r (Fin w) = Fin (r * w)"
| "scale64 r PInf = inf_times r"
| "scale64 r NInf = inf_times (- r)"
| "scale64 r NaN = NaN"

fun add64 :: "float64 \<Rightarrow> float64 \<Rightarrow> float64" where
  "add64 (Fin a) (Fin b) = Fin (a + b)"
| "add64 NaN y = NaN"
| "add64 x NaN = NaN"
| "add64 PInf NInf = NaN"
| "add64 NInf PInf = NaN"
| "add64 PInf y = PInf"
| "add64 x PInf = PInf"
| "add64 NInf y = NInf"
| "add64 x NInf = NInf"

text \<open>
  \<^verbatim>\<open>sum\<close> and \<^verbatim>\<open>mean\<close> of pandas skip NaN entries. The sum of none is 0, the mean of
  none is NaN.
\<close>

definition nansum :: "float64 list \<Rightarrow> float64" where
  "nansum xs = foldl add64 (Fin 0) (filter (\<lambda>x. x \<noteq> NaN) xs)"

definition nanmean :: "float64 list \<Rightarrow> float64" where
  "nanmean xs =
     (let ys = filter (\<lambda>x. x \<noteq> NaN) xs
      in if ys = [] then NaN
         else (case nansum ys of Fin t \<Rightarrow> Fin (t / of_nat (length ys)) | v \<Rightarrow> v))"

text \<open>\<^verbatim>\<open>column > 0\<close>: false for NaN.\<close>

definition gt_zero :: "float64 \<Rightarrow> bool" where
  "gt_zero x = (case x of Fin v \<Rightarrow> 0 < v | PInf \<Rightarrow> True | _ \<Rightarrow> False)"

subsection \<open>Risk parameters\<close>

text \<open>The literals \<^verbatim>\<open>0.01\<close> and \<^verbatim>\<open>0.20\<close> are the doubles nearest to them.\<close>

definition BASE_1R_PCT :: real where
  "BASE_1R_PCT = fl (1 / 100)"

definition MAX_POS_SIZE_PCT :: real where
  "MAX_POS_SIZE_PCT = fl (20 / 100)"

subsection \<open>Open risk\<close>

text \<open>
  \<^verbatim>\<open>
  def calculate_or_r(entry_price, stop_loss, quantity, current_1r_unit):
      or_amount = abs(entry_price - stop_loss) * quantity
      return or_amount / current_1r_unit if current_1r_unit > 0 else 0
  \<close>
\<close>

definition calculate_or_r :: "real \<Rightarrow> real \<Rightarrow> int \<Rightarrow> real \<Rightarrow> error + real" where
  "calculate_or_r entry_price stop_loss quantity current_1r_unit =
     (let or_amount = \<bar>entry_price - stop_loss\<bar> * of_int quantity
      in if current_1r_unit > 0 then py_div or_amount current_1r_unit else Inr 0)"

text \<open>
  \<^verbatim>\<open>
  def calculate_dynamic_or(entry_price, stop_loss, quantity, current_1r_unit):
      if stop_loss >= entry_price:
          return 0.0
      or_amount = (entry_price - stop_loss) * quantity
      return or_amount / current_1r_unit if current_1r_unit > 0 else 0
  \<close>
\<close>

definition calculate_dynamic_or :: "real \<Rightarrow> real \<Rightarrow> int \<Rightarrow> real \<Rightarrow> error + real" where
  "calculate_dynamic_or entry_price stop_loss quantity current_1r_unit =
     (if stop_loss \<ge> entry_price then Inr 0
      else let or_amount = (entry_price - stop_loss) * of_int quantity
           in if current_1r_unit > 0 then py_div or_amount current_1r_unit else Inr 0)"

subsection \<open>Regime parameters\<close>

text \<open>
  The table of \<^verbatim>\<open>get_regime_params\<close>. The \<^verbatim>\<open>desc\<close> texts are Korean followed by an
  English tag in parentheses; the record keeps the English tag.
\<close>

record regime_params =
  rp_tor_limit :: real
  rp_r_multiplier :: real
  rp_color :: string
  rp_desc :: string

definition green_params :: regime_params where
  "green_params =
     \<lparr>rp_tor_limit = 5, rp_r_multiplier = 1, rp_color = ''#00c864'', rp_desc = ''Full Speed''\<rparr>"

definition yellow_params :: regime_params where
  "yellow_params =
     \<lparr>rp_tor_limit = 3, rp_r_multiplier = 1 / 2, rp_color = ''#ffaa00'', rp_desc = ''Half Speed''\<rparr>"

definition red_params :: regime_params where
  "red_params =
     \<lparr>rp_tor_limit = 1, rp_r_multiplier = 1 / 4, rp_color = ''#ff3232'', rp_desc = ''Survival Only''\<rparr>"

text \<open>The dictionary \<^verbatim>\<open>params\<close>, as a map from the regime name.\<close>

definition params :: "string \<rightharpoonup> regime_params" where
  "params = [''GREEN'' \<mapsto> green_params, ''YELLOW'' \<mapsto> yellow_params, ''RED'' \<mapsto> red_params]"

text \<open>
  \<^verbatim>\<open>return params.get(regime, params["GREEN"])\<close>: the default \<^verbatim>\<open>params["GREEN"]\<close> is
  evaluated first, then the lookup of \<^verbatim>\<open>regime\<close> falls back to it.
\<close>

definition get_regime_params :: "string \<Rightarrow> error + regime_params" where
  "get_regime_params regime =
     bind_err (dict_index params ''GREEN'')
       (\<lambda>dflt. Inr (case params regime of Some p \<Rightarrow> p | None \<Rightarrow> dflt))"

subsection \<open>The database\<close>

text \<open>
  \<^verbatim>\<open>
  CREATE TABLE portfolio (ticker TEXT PRIMARY KEY, entry_price REAL, stop_loss REAL,
    quantity INTEGER, sector TEXT, entry_date TEXT, breakdown_low REAL,
    initial_stop_loss REAL)
  \<close>
  A row is keyed by its ticker. \<^verbatim>\<open>initial_stop_loss\<close> and \<^verbatim>\<open>breakdown_low\<close> were
  added to an existing table, and the code reads both with a test for \<^verbatim>\<open>NULL\<close>, so
  they are optional.
\<close>

record position =
  pf_entry_price :: real
  pf_stop_loss :: real
  pf_quantity :: int
  pf_sector :: string
  pf_entry_date :: string
  pf_breakdown_low :: "real option"
  pf_initial_stop_loss :: "real option"

text \<open>
  \<^verbatim>\<open>
  CREATE TABLE trade_history (id INTEGER PRIMARY KEY AUTOINCREMENT, ticker TEXT,
    entry_date TEXT, exit_date TEXT, entry_price REAL, exit_price REAL, r_multiple REAL)
  ALTER TABLE trade_history ADD COLUMN trade_id TEXT
  ALTER TABLE trade_history ADD COLUMN exit_qty INTEGER
  \<close>
  The table is the list of its rows in insertion order; the \<^verbatim>\<open>id\<close> of a row is its
  place in the list.
\<close>

record trade =
  th_ticker :: string
  th_entry_date :: string
  th_exit_date :: string
  th_entry_price :: real
  th_exit_price :: real
  th_r_multiple :: real
  th_trade_id :: string
  th_exit_qty :: int

text \<open>The single row of \<^verbatim>\<open>account_config\<close> sits beside the two tables.\<close>

record db =
  portfolio :: "string \<rightharpoonup> position"
  trade_history :: "trade list"
  ac_total_equity :: real
  ac_last_updated :: string

subsection \<open>Portfolio operations\<close>

text \<open>\<^verbatim>\<open>str.upper()\<close> on ASCII letters; a ticker has no other letters.\<close>

definition upper_char :: "char \<Rightarrow> char" where
  "upper_char c =
     (let n = (of_char c :: nat) in if 97 \<le> n \<and> n \<le> 122 then char_of (n - 32) else c)"

definition upper :: "string \<Rightarrow> string" where
  "upper s = map upper_char s"

text \<open>
  What \<^verbatim>\<open>add_position\<close> reports: the toast of the merge or of the insert, or the
  \<^verbatim>\<open>st.error\<close> of its \<^verbatim>\<open>except Exception\<close> handler, which leaves the database as it
  was (nothing is written before the division that can raise). The average price is
  computed in doubles: two products of a float and an \<^verbatim>\<open>int\<close>, their sum, and the
  quotient by the \<^verbatim>\<open>int\<close> total, each rounded.
\<close>

datatype add_outcome = Merged real | Inserted | Database_error error

text \<open>
  \<^verbatim>\<open>
  def add_position(ticker, entry, stop, qty, sector):
      ticker = ticker.upper()
      c.execute("SELECT entry_price, quantity, initial_stop_loss FROM portfolio
                 WHERE ticker = ?", (ticker,))
      existing_pos = c.fetchone()
      if existing_pos:
          old_price, old_qty, old_init_stop = existing_pos
          total_qty = old_qty + qty
          wac_price = ((old_price * old_qty) + (entry * qty)) / total_qty
          c.execute("UPDATE portfolio SET entry_price = ?, quantity = ?, stop_loss = ?,
                     sector = ?, initial_stop_loss = ? WHERE ticker = ?",
                    (wac_price, total_qty, stop, sector, stop, ticker))
      else:
          c.execute("INSERT INTO portfolio (ticker, entry_price, stop_loss, quantity,
                     sector, entry_date, initial_stop_loss) VALUES (?, ?, ?, ?, ?, ?, ?)",
                    (ticker, entry, stop, qty, sector, today, stop))
      conn.commit()
  \<close>
\<close>

definition add_position ::
  "string \<Rightarrow> real \<Rightarrow> real \<Rightarrow> int \<Rightarrow> string \<Rightarrow> string \<Rightarrow> db \<Rightarrow> add_outcome \<times> db" where
  "add_position ticker0 entry stop qty sector today d =
     (let ticker = upper ticker0 in
      case portfolio d ticker of
        Some existing_pos \<Rightarrow>
          (let old_price = pf_entry_price existing_pos;
               old_qty = pf_quantity existing_pos;
               total_qty = old_qty + qty
           in case fl_div (fl (fl (old_price * py_float old_qty) + fl (entry * py_float qty)))
                     (py_float total_qty) of
                Inl e \<Rightarrow> (Database_error e, d)
              | Inr wac_price \<Rightarrow>
                  (Merged wac_price,
                   d\<lparr>portfolio := (portfolio d)(ticker \<mapsto>
                        existing_pos\<lparr>pf_entry_price := wac_price, pf_quantity := total_qty,
                                      pf_stop_loss := stop, pf_sector := sector,
                                      pf_initial_stop_loss := Some stop\<rparr>)\<rparr>))
      | None \<Rightarrow>
          (Inserted,
           d\<lparr>portfolio := (portfolio d)(ticker \<mapsto>
                \<lparr>pf_entry_price = entry, pf_stop_loss = stop, pf_quantity = qty,
                 pf_sector = sector, pf_entry_date = today, pf_breakdown_low = None,
                 pf_initial_stop_loss = Some stop\<rparr>)\<rparr>))"

text \<open>
  \<^verbatim>\<open>
  def update_stop_loss(ticker, new_stop_price):
      c.execute("UPDATE portfolio SET stop_loss = ? WHERE ticker = ?",
                (new_stop_price, ticker))
  \<close>
  An \<^verbatim>\<open>UPDATE\<close> whose \<^verbatim>\<open>WHERE\<close> matches no row changes nothing.
\<close>

definition update_stop_loss :: "string \<Rightarrow> real \<Rightarrow> db \<Rightarrow> db" where
  "update_stop_loss ticker new_stop_price d =
     (case portfolio d ticker of
        None \<Rightarrow> d
      | Some row \<Rightarrow> d\<lparr>portfolio := (portfolio d)(ticker \<mapsto> row\<lparr>pf_stop_loss := new_stop_price\<rparr>)\<rparr>)"

subsection \<open>The exit pipeline\<close>

text \<open>
  The R multiple of \<^verbatim>\<open>close_position\<close>:
  \<^verbatim>\<open>
  r_unit = abs(entry_p - init_stop)
  r_multiple = (exit_price - entry_p) / r_unit if r_unit != 0 else 0
  \<close>
\<close>

definition close_r_multiple :: "real \<Rightarrow> real \<Rightarrow> real \<Rightarrow> error + real" where
  "close_r_multiple exit_price entry_p init_stop =
     (let r_unit = \<bar>entry_p - init_stop\<bar>
      in if r_unit \<noteq> 0 then py_div (exit_price - entry_p) r_unit else Inr 0)"

text \<open>
  \<^verbatim>\<open>
  def close_position(ticker, exit_price, qty_to_close):
      c.execute("SELECT entry_price, stop_loss, quantity, entry_date, initial_stop_loss
                 FROM portfolio WHERE ticker=?", (ticker,))
      row_data = c.fetchone()
      if row_data:
          entry_p, stop_p, current_qty, entry_date, init_stop = row_data
          if init_stop is None: init_stop = stop_p
          if qty_to_close > current_qty:
              qty_to_close = current_qty
          r_unit = abs(entry_p - init_stop)
          r_multiple = (exit_price - entry_p) / r_unit if r_unit != 0 else 0
          trade_id = f"{ticker}_{entry_date}"
          c.execute("INSERT INTO trade_history ...", (ticker, entry_date, today, entry_p,
                     exit_price, r_multiple, trade_id, qty_to_close))
          pnl_dollars = (exit_price - entry_p) * qty_to_close
          c.execute("UPDATE account_config SET total_equity = total_equity + ?,
                     last_updated = ? WHERE id = 1", (pnl_dollars, now))
          remaining_qty = current_qty - qty_to_close
          if remaining_qty > 0:
              c.execute("UPDATE portfolio SET quantity = ? WHERE ticker = ?",
                        (remaining_qty, ticker))
          else:
              c.execute("DELETE FROM portfolio WHERE ticker=?", (ticker,))
      conn.commit()
  \<close>
  An exception leaves before \<^verbatim>\<open>conn.commit()\<close>, so the result is then the error alone.
\<close>

definition close_position ::
  "string \<Rightarrow> real \<Rightarrow> int \<Rightarrow> string \<Rightarrow> string \<Rightarrow> db \<Rightarrow> error + db" where
  "close_position ticker exit_price qty_to_close0 today now d =
     (case portfolio d ticker of
        None \<Rightarrow> Inr d
      | Some row_data \<Rightarrow>
          (let entry_p = pf_entry_price row_data;
               stop_p = pf_stop_loss row_data;
               current_qty = pf_quantity row_data;
               entry_date = pf_entry_date row_data;
               init_stop = (case pf_initial_stop_loss row_data of None \<Rightarrow> stop_p | Some s \<Rightarrow> s);
               qty_to_close = (if qty_to_close0 > current_qty then current_qty else qty_to_close0)
           in bind_err (close_r_multiple exit_price entry_p init_stop)
                (\<lambda>r_multiple.
                   let trade_id = ticker @ ''_'' @ entry_date;
                       new_row = \<lparr>th_ticker = ticker, th_entry_date = entry_date,
                                  th_exit_date = today, th_entry_price = entry_p,
                                  th_exit_price = exit_price, th_r_multiple = r_multiple,
                                  th_trade_id = trade_id, th_exit_qty = qty_to_close\<rparr>;
                       pnl_dollars = (exit_price - entry_p) * of_int qty_to_close;
                       remaining_qty = current_qty - qty_to_close
                   in Inr (d\<lparr>trade_history := trade_history d @ [new_row],
                              ac_total_equity := ac_total_equity d + pnl_dollars,
                              ac_last_updated := now,
                              portfolio :=
                                (if remaining_qty > 0
                                 then (portfolio d)(ticker \<mapsto> row_data\<lparr>pf_quantity := remaining_qty\<rparr>)
                                 else (portfolio d)(ticker := None))\<rparr>))))"

text \<open>
  \<^verbatim>\<open>
  def process_partial_exit(ticker, exit_qty, exit_px, entry_px, current_1r_unit):
      c.execute("SELECT initial_stop_loss, stop_loss, entry_date FROM portfolio
                 WHERE ticker = ?", (ticker,))
      row = c.fetchone()
      if row:
          init_stop, current_stop, entry_date = row
          calc_stop = init_stop if init_stop is not None else current_stop
          r_unit_fixed = abs(entry_px - calc_stop)
          if r_unit_fixed > 0:
              realized_r = (exit_px - entry_px) / r_unit_fixed
          else:
              realized_r = 0
          original_entry_date = entry_date
      else:
          realized_r = 0
          original_entry_date = today
          r_unit_fixed = 0
      trade_id = f"{ticker}_{original_entry_date}"
      c.execute("INSERT INTO trade_history ...", (f"{ticker}(P)", original_entry_date,
                 today, entry_px, exit_px, realized_r, trade_id, exit_qty))
      pnl_dollars = (exit_px - entry_px) * exit_qty
      c.execute("UPDATE account_config SET total_equity = total_equity + ?,
                 last_updated = ? WHERE id = 1", (pnl_dollars, now))
      c.execute("UPDATE portfolio SET quantity = quantity - ? WHERE ticker = ?",
                (exit_qty, ticker))
      c.execute("SELECT quantity FROM portfolio WHERE ticker = ?", (ticker,))
      remaining_qty = c.fetchone()[0]
      if remaining_qty <= 0:
          c.execute("DELETE FROM portfolio WHERE ticker = ?", (ticker,))
      conn.commit()
  \<close>
  With no row for the ticker the last \<^verbatim>\<open>fetchone()\<close> is \<^verbatim>\<open>None\<close> and indexing it raises
  \<^verbatim>\<open>TypeError\<close> before the commit.
\<close>

definition process_partial_exit ::
  "string \<Rightarrow> int \<Rightarrow> real \<Rightarrow> real \<Rightarrow> real \<Rightarrow> string \<Rightarrow> string \<Rightarrow> db \<Rightarrow> error + db" where
  "process_partial_exit ticker exit_qty exit_px entry_px current_1r_unit today now d =
     bind_err
       (case portfolio d ticker of
          Some row \<Rightarrow>
            (let init_stop = pf_initial_stop_loss row;
                 current_stop = pf_stop_loss row;
                 entry_date = pf_entry_date row;
                 calc_stop = (case init_stop of Some s \<Rightarrow> s | None \<Rightarrow> current_stop);
                 r_unit_fixed = \<bar>entry_px - calc_stop\<bar>
             in bind_err
                  (if r_unit_fixed > 0 then py_div (exit_px - entry_px) r_unit_fixed else Inr 0)
                  (\<lambda>realized_r. Inr (realized_r, entry_date)))
        | None \<Rightarrow> Inr (0, today))
       (\<lambda>(realized_r, original_entry_date).
          let trade_id = ticker @ ''_'' @ original_entry_date;
              new_row = \<lparr>th_ticker = ticker @ ''(P)'', th_entry_date = original_entry_date,
                         th_exit_date = today, th_entry_price = entry_px,
                         th_exit_price = exit_px, th_r_multiple = realized_r,
                         th_trade_id = trade_id, th_exit_qty = exit_qty\<rparr>;
              pnl_dollars = (exit_px - entry_px) * of_int exit_qty
          in case portfolio d ticker of
               None \<Rightarrow> Inl TypeError
             | Some row \<Rightarrow>
                 (let remaining_qty = pf_quantity row - exit_qty
                  in Inr (d\<lparr>trade_history := trade_history d @ [new_row],
                             ac_total_equity := ac_total_equity d + pnl_dollars,
                             ac_last_updated := now,
                             portfolio :=
                               (if remaining_qty \<le> 0
                                then (portfolio d)(ticker := None)
                                else (portfolio d)(ticker \<mapsto> row\<lparr>pf_quantity := remaining_qty\<rparr>))\<rparr>)))"

subsection \<open>Expectancy\<close>

text \<open>
  The data frame handed to \<^verbatim>\<open>calculate_real_expectancy\<close> is the list of the rows read
  from \<^verbatim>\<open>trade_history\<close>.

  \<^verbatim>\<open>total_qty_per_trade = df.groupby('trade_id')['exit_qty'].transform('sum')\<close>:
  for each row, the summed \<^verbatim>\<open>exit_qty\<close> of the rows of its trade.
\<close>

definition total_qty_per_trade :: "trade list \<Rightarrow> string \<Rightarrow> int" where
  "total_qty_per_trade df tid = sum_list (map th_exit_qty (filter (\<lambda>r. th_trade_id r = tid) df))"

text \<open>
  \<^verbatim>\<open>
  df['weight'] = df['exit_qty'] / total_qty_per_trade
  df['weight'] = df['weight'].fillna(0)
  \<close>
  Both columns are integers. Where the total of a trade is 0 the quotient is an
  infinity for a non-zero \<^verbatim>\<open>exit_qty\<close> and NaN for \<open>0 / 0\<close>, which \<^verbatim>\<open>fillna\<close> turns
  into 0.
\<close>

definition weight :: "trade list \<Rightarrow> trade \<Rightarrow> float64" where
  "weight df r =
     fillna 0 (int_truediv (th_exit_qty r) (total_qty_per_trade df (th_trade_id r)))"

text \<open>\<^verbatim>\<open>df['contribution_r'] = df['r_multiple'] * df['weight']\<close>\<close>

definition contribution_r :: "trade list \<Rightarrow> trade \<Rightarrow> float64" where
  "contribution_r df r = scale64 (th_r_multiple r) (weight df r)"

text \<open>
  \<^verbatim>\<open>df.groupby('trade_id').agg({'contribution_r': 'sum', ...})\<close>: the entry
  \<^verbatim>\<open>total_trade_r\<close> of one trade.
\<close>

definition total_trade_r :: "trade list \<Rightarrow> string \<Rightarrow> float64" where
  "total_trade_r df tid =
     nansum (map (contribution_r df) (filter (\<lambda>r. th_trade_id r = tid) df))"

definition mean :: "real list \<Rightarrow> real" where
  "mean xs = sum_list xs / of_nat (length xs)"

text \<open>
  \<^verbatim>\<open>
  def calculate_real_expectancy(df):
      if df.empty:
          return 0, 0, 0
      if 'trade_id' not in df.columns or 'exit_qty' not in df.columns:
          return df['r_multiple'].mean(), (df['r_multiple'] > 0).mean() * 100, len(df)
      ...
      trade_grouped = df.groupby('trade_id').agg(...)
      total_trades = len(trade_grouped)
      winning_trades = trade_grouped[trade_grouped['total_trade_r'] > 0]
      win_rate = (len(winning_trades) / total_trades * 100) if total_trades > 0 else 0
      expectancy = trade_grouped['total_trade_r'].mean() if total_trades > 0 else 0
      return expectancy, win_rate, total_trades
  \<close>
  \<open>has_columns\<close> says whether the frame has both grouping columns. The groups are the
  distinct trade ids; their order does not matter to a sum, a count or a mean.
  Every row has a trade id and an exit quantity: \<^verbatim>\<open>migrate_trade_data\<close> fills both in
  for old rows, and both exit operations write them.
\<close>

definition calculate_real_expectancy :: "bool \<Rightarrow> trade list \<Rightarrow> float64 \<times> real \<times> nat" where
  "calculate_real_expectancy has_columns df =
     (if df = [] then (Fin 0, 0, 0)
      else if \<not> has_columns then
        (Fin (mean (map th_r_multiple df)),
         mean (map (\<lambda>r. if th_r_multiple r > 0 then 1 else 0) df) * 100,
         length df)
      else
        (let trade_grouped = map (total_trade_r df) (remdups (map th_trade_id df));
             total_trades = length trade_grouped;
             winning_trades = filter gt_zero trade_grouped;
             win_rate = (if total_trades > 0
                         then of_nat (length winning_trades) / of_nat total_trades * 100
                         else 0);
             expectancy = (if total_trades > 0 then nanmean trade_grouped else Fin 0)
         in (expectancy, win_rate, total_trades)))"

subsection \<open>Regime classifier\<close>

text \<open>
  The second definition of \<^verbatim>\<open>suggest_market_regime\<close>, which replaces the first of the
  same name. What it reads from the market-data provider is an argument: for each proxy
  either an exception of the provider or the list of closing prices, oldest first.
\<close>

datatype history = Provider_raised | Closes "real list"

text \<open>
  \<^verbatim>\<open>df['Close'].rolling(window=20).mean().iloc[-1]\<close>: the mean of the last 20 closes,
  NaN (here \<open>None\<close>) when there are fewer.
\<close>

definition sma20_last :: "real list \<Rightarrow> real option" where
  "sma20_last closes =
     (if length closes \<ge> 20 then Some (sum_list (drop (length closes - 20) closes) / 20)
      else None)"

text \<open>A comparison with NaN is false.\<close>

definition gt_nan :: "real \<Rightarrow> real option \<Rightarrow> bool" where
  "gt_nan x y = (case y of None \<Rightarrow> False | Some v \<Rightarrow> x > v)"

definition lt_nan :: "real \<Rightarrow> real option \<Rightarrow> bool" where
  "lt_nan x y = (case y of None \<Rightarrow> False | Some v \<Rightarrow> x < v)"

text \<open>The reason texts are Korean; each is a constructor, with the count it prints.\<close>

datatype reason =
    Data_fetch_failed
  | Low_recent_win_rate
  | Index_and_trend_fine
  | Index_high_behaviour_unstable int
  | Behaviour_at_risk_level int
  | Index_down_behaviour_worse int
  | Analysis_failed

text \<open>
  \<^verbatim>\<open>
  def suggest_market_regime(checklist_count, recent_win_rate):
      try:
          spy = yf.Ticker("SPY").history(period="60d")
          rsp = yf.Ticker("RSP").history(period="60d")
          if spy.empty or rsp.empty:
              return "UNKNOWN", "gray", ...
          spy['SMA20'] = spy['Close'].rolling(window=20).mean()
          rsp['SMA20'] = rsp['Close'].rolling(window=20).mean()
          spy_curr, spy_sma = spy['Close'].iloc[-1], spy['SMA20'].iloc[-1]
          rsp_curr, rsp_sma = rsp['Close'].iloc[-1], rsp['SMA20'].iloc[-1]
          if spy_curr > spy_sma and rsp_curr > rsp_sma:
              base_regime = "GREEN"
          elif spy_curr < spy_sma and rsp_curr < rsp_sma:
              base_regime = "RED"
          else:
              base_regime = "YELLOW"
          if recent_win_rate < 20.0:
              return "RED", "#ff3232", ...
          final_regime = base_regime
          reason = ...
          if checklist_count >= 3:
              if base_regime == "GREEN":
                  final_regime = "YELLOW"
              elif base_regime == "YELLOW":
                  final_regime = "RED"
          colors = {"GREEN": "#00c864", "YELLOW": "#ffaa00", "RED": "#ff3232"}
          return final_regime, colors.get(final_regime, "gray"), reason
      except Exception as e:
          return "ERROR", "gray", ...
  \<close>
\<close>

definition colors :: "string \<rightharpoonup> string" where
  "colors = [''GREEN'' \<mapsto> ''#00c864'', ''YELLOW'' \<mapsto> ''#ffaa00'', ''RED'' \<mapsto> ''#ff3232'']"

definition base_regime_of :: "real list \<Rightarrow> real list \<Rightarrow> string" where
  "base_regime_of spy rsp =
     (let spy_curr = last spy; spy_sma = sma20_last spy;
          rsp_curr = last rsp; rsp_sma = sma20_last rsp
      in if gt_nan spy_curr spy_sma \<and> gt_nan rsp_curr rsp_sma then ''GREEN''
         else if lt_nan spy_curr spy_sma \<and> lt_nan rsp_curr rsp_sma then ''RED''
         else ''YELLOW'')"

definition suggest_market_regime ::
  "history \<Rightarrow> history \<Rightarrow> int \<Rightarrow> real \<Rightarrow> string \<times> string \<times> reason" where
  "suggest_market_regime spy_data rsp_data checklist_count recent_win_rate =
     (case (spy_data, rsp_data) of
        (Closes spy, Closes rsp) \<Rightarrow>
          if spy = [] \<or> rsp = [] then (''UNKNOWN'', ''gray'', Data_fetch_failed)
          else
            (let base_regime = base_regime_of spy rsp
             in if recent_win_rate < 20 then (''RED'', ''#ff3232'', Low_recent_win_rate)
                else
                  (let (final_regime, reason) =
                         (if checklist_count \<ge> 3 then
                            (if base_regime = ''GREEN''
                             then (''YELLOW'', Index_high_behaviour_unstable checklist_count)
                             else if base_regime = ''YELLOW''
                             then (''RED'', Behaviour_at_risk_level checklist_count)
                             else (base_regime, Index_down_behaviour_worse checklist_count))
                          else (base_regime, Index_and_trend_fine))
                   in (final_regime,
                       (case colors final_regime of Some c \<Rightarrow> c | None \<Rightarrow> ''gray''),
                       reason)))
      | _ \<Rightarrow> (''ERROR'', ''gray'', Analysis_failed))"

subsection \<open>Position sizer\<close>

text \<open>
  Section 6-1 of the script, with what it reads from the sidebar: the regime chosen on
  the radio button, whose parameters give \<^verbatim>\<open>tor_limit\<close> and \<^verbatim>\<open>r_multiplier\<close>, the
  stored equity, the total open risk computed just before, and the two prices typed in.
  \<^verbatim>\<open>
  regime_params = get_regime_params(regime)
  tor_limit = regime_params["tor_limit"]
  r_multiplier = regime_params["r_multiplier"]
  active_r_pct = BASE_1R_PCT * r_multiplier
  active_1r_unit = total_equity * active_r_pct
  if entry_p > stop_p and entry_p > 0:
      stop_dist = entry_p - stop_p
      stop_dist_pct = (stop_dist / entry_p) * 100
      theoretical_shares = int(active_1r_unit / stop_dist)
      theoretical_mag = theoretical_shares * entry_p
      theoretical_mag_pct = (theoretical_mag / total_equity) * 100
      max_cap_dollars = total_equity * MAX_POS_SIZE_PCT
      max_cap_shares = int(max_cap_dollars / entry_p)
      final_shares = min(theoretical_shares, max_cap_shares)
      final_mag = final_shares * entry_p
      final_mag_pct = (final_mag / total_equity) * 100
      final_or_r = (final_shares * stop_dist) / active_1r_unit
      st.success(...)
      if theoretical_shares > max_cap_shares: st.warning(...)
      remaining_tor = tor_limit - current_tor
      if final_or_r > remaining_tor: st.error(...)
      else: st.info(...)
  elif entry_p <= stop_p and entry_p != 0:
      st.error(...)
  else:
      st.info(...)
  \<close>
  The three branches are the three outcomes: a sizing, the error message that the stop
  must be below the entry, and the prompt to enter both prices. Every float operation
  is rounded; \<^verbatim>\<open>int()\<close> then truncates the rounded quotient.
\<close>

record sizing =
  sz_stop_dist :: real
  sz_stop_dist_pct :: real
  sz_theoretical_shares :: int
  sz_theoretical_mag_pct :: real
  sz_max_cap_shares :: int
  sz_final_shares :: int
  sz_final_mag :: real
  sz_final_mag_pct :: real
  sz_final_or_r :: real
  sz_cap_applied :: bool
  sz_tor_exceeded :: bool

datatype sizing_outcome = Sized sizing | InvalidInput | AwaitingInput

definition sizing_block :: "real \<Rightarrow> string \<Rightarrow> real \<Rightarrow> real \<Rightarrow> real \<Rightarrow> error + sizing_outcome" where
  "sizing_block total_equity regime current_tor entry_p stop_p =
     bind_err (get_regime_params regime) (\<lambda>regime_params.
       let tor_limit = rp_tor_limit regime_params;
           r_multiplier = rp_r_multiplier regime_params;
           active_r_pct = fl (BASE_1R_PCT * r_multiplier);
           active_1r_unit = fl (total_equity * active_r_pct)
       in if entry_p > stop_p \<and> entry_p > 0 then
            (let stop_dist = fl (entry_p - stop_p) in
             bind_err (fl_div stop_dist entry_p) (\<lambda>stop_frac.
             bind_err (fl_div active_1r_unit stop_dist) (\<lambda>theoretical_quot.
             let stop_dist_pct = fl (stop_frac * 100);
                 theoretical_shares = py_int theoretical_quot;
                 theoretical_mag = fl (py_float theoretical_shares * entry_p)
             in
             bind_err (fl_div theoretical_mag total_equity) (\<lambda>theoretical_frac.
             let theoretical_mag_pct = fl (theoretical_frac * 100);
                 max_cap_dollars = fl (total_equity * MAX_POS_SIZE_PCT)
             in
             bind_err (fl_div max_cap_dollars entry_p) (\<lambda>cap_quot.
             let max_cap_shares = py_int cap_quot;
                 final_shares = min theoretical_shares max_cap_shares;
                 final_mag = fl (py_float final_shares * entry_p)
             in
             bind_err (fl_div final_mag total_equity) (\<lambda>final_frac.
             let final_mag_pct = fl (final_frac * 100) in
             bind_err (fl_div (fl (py_float final_shares * stop_dist)) active_1r_unit) (\<lambda>final_or_r.
             let remaining_tor = fl (tor_limit - current_tor)
             in Inr (Sized
                  \<lparr>sz_stop_dist = stop_dist, sz_stop_dist_pct = stop_dist_pct,
                   sz_theoretical_shares = theoretical_shares,
                   sz_theoretical_mag_pct = theoretical_mag_pct,
                   sz_max_cap_shares = max_cap_shares, sz_final_shares = final_shares,
                   sz_final_mag = final_mag, sz_final_mag_pct = final_mag_pct,
                   sz_final_or_r = final_or_r,
                   sz_cap_applied = (theoretical_shares > max_cap_shares),
                   sz_tor_exceeded = (final_or_r > remaining_tor)\<rparr>))))))))
          else if entry_p \<le> stop_p \<and> entry_p \<noteq> 0 then Inr InvalidInput
          else Inr AwaitingInput)"

subsection \<open>Accumulated rounding error\<close>

text \<open>
  \<open>errw k M x y\<close>: the computed \<open>y\<close> stands for the exact \<open>x\<close>, of magnitude at most
  \<open>M\<close>, after at most \<open>k\<close> roundings, each of relative error at most 2^-53.
\<close>

definition errw :: "nat \<Rightarrow> real \<Rightarrow> real \<Rightarrow> real \<Rightarrow> bool" where
  "errw k M x y \<longleftrightarrow> \<bar>x\<bar> \<le> M \<and> \<bar>y - x\<bar> \<le> M * ((1 + 1 / 2 ^ 53) ^ k - 1)"

subsection \<open>Example data\<close>

text \<open>One open position of 20 shares bought at 100 with its stop at 95, and an account of 10000.\<close>

definition example_position :: position where
  "example_position =
     \<lparr>pf_entry_price = 100, pf_stop_loss = 95, pf_quantity = 20, pf_sector = ''Tech/AI'',
      pf_entry_date = ''2024-01-02'', pf_breakdown_low = None, pf_initial_stop_loss = Some 95\<rparr>"

definition example_db :: db where
  "example_db =
     \<lparr>portfolio = [''AAPL'' \<mapsto> example_position], trade_history = [],
      ac_total_equity = 10000, ac_last_updated = ''2024-01-02 09:30:00''\<rparr>"

text \<open>One share bought at 100.1, the double nearest to it, for a merge at the same price.\<close>

definition same_price_db :: db where
  "same_price_db =
     \<lparr>portfolio = [''AAPL'' \<mapsto>
        \<lparr>pf_entry_price = fl (1001 / 10), pf_stop_loss = 95, pf_quantity = 1,
         pf_sector = ''Tech/AI'', pf_entry_date = ''2024-01-02'', pf_breakdown_low = None,
         pf_initial_stop_loss = Some 95\<rparr>],
      trade_history = [], ac_total_equity = 10000, ac_last_updated = ''2024-01-02 09:30:00''\<rparr>"

text \<open>
  A trade history of two trades: two partial exits of the position above, 10 shares at
  110 and 10 shares at 105, and between them the full exit of 10 shares bought at 50
  with the stop at 48 and sold at 54, as the exit pipeline records them.
\<close>

definition example_ledger :: "trade list" where
  "example_ledger =
     [\<lparr>th_ticker = ''AAPL(P)'', th_entry_date = ''2024-01-02'', th_exit_date = ''2024-02-01'',
       th_entry_price = 100, th_exit_price = 110, th_r_multiple = 2,
       th_trade_id = ''AAPL_2024-01-02'', th_exit_qty = 10\<rparr>,
      \<lparr>th_ticker = ''MSFT'', th_entry_date = ''2024-01-10'', th_exit_date = ''2024-02-15'',
       th_entry_price = 50, th_exit_price = 54, th_r_multiple = 2,
       th_trade_id = ''MSFT_2024-01-10'', th_exit_qty = 10\<rparr>,
      \<lparr>th_ticker = ''AAPL'', th_entry_date = ''2024-01-02'', th_exit_date = ''2024-03-01'',
       th_entry_price = 100, th_exit_price = 105, th_r_multiple = 1,
       th_trade_id = ''AAPL_2024-01-02'', th_exit_qty = 10\<rparr>]"

text \<open>A history in which the exit quantities of one trade add up to 0.\<close>

definition zero_total_ledger :: "trade list" where
  "zero_total_ledger =
     [\<lparr>th_ticker = ''TSLA'', th_entry_date = ''2024-01-05'', th_exit_date = ''2024-02-01'',
       th_entry_price = 200, th_exit_price = 210, th_r_multiple = 1,
       th_trade_id = ''TSLA_2024-01-05'', th_exit_qty = 1\<rparr>,
      \<lparr>th_ticker = ''TSLA'', th_entry_date = ''2024-01-05'', th_exit_date = ''2024-02-02'',
       th_entry_price = 200, th_exit_price = 210, th_r_multiple = 1,
       th_trade_id = ''TSLA_2024-01-05'', th_exit_qty = - 1\<rparr>,
      \<lparr>th_ticker = ''MSFT'', th_entry_date = ''2024-01-10'', th_exit_date = ''2024-02-15'',
       th_entry_price = 50, th_exit_price = 54, th_r_multiple = 2,
       th_trade_id = ''MSFT_2024-01-10'', th_exit_qty = 10\<rparr>]"

section \<open>Properties\<close>

subsection \<open>Regime parameters\<close>

lemma params_GREEN: "dict_index params ''GREEN'' = Inr green_params"
  by (simp add: dict_index_def params_def)

lemma get_regime_params_cases:
  "get_regime_params regime =
     Inr (if regime = ''RED'' then red_params
          else if regime = ''YELLOW'' then yellow_params
          else green_params)"
  unfolding get_regime_params_def params_GREEN bind_err_def
  by (simp add: params_def)

text \<open>
  C9. Every regime name outside GREEN, YELLOW and RED, among them UNKNOWN and ERROR, is
  looked up as the GREEN parameter set, with total open-risk limit 5.0 and multiplier
  1.0: the lookup returns normally, and what it returns is no separate
  no-recommendation value.
\<close>

theorem get_regime_params_default_green:
  "regime \<notin> {''GREEN'', ''YELLOW'', ''RED''} \<Longrightarrow>
     get_regime_params regime = Inr green_params
     \<and> get_regime_params regime = get_regime_params ''GREEN''
     \<and> rp_tor_limit green_params = 5 \<and> rp_r_multiplier green_params = 1"
  by (simp add: get_regime_params_cases green_params_def)

theorem get_regime_params_default_green_witness:
  "''UNKNOWN'' \<notin> {''GREEN'', ''YELLOW'', ''RED''}
   \<and> get_regime_params ''UNKNOWN'' = Inr green_params
   \<and> get_regime_params ''ERROR'' = Inr green_params"
proof -
  have u: "''UNKNOWN'' \<notin> {''GREEN'', ''YELLOW'', ''RED''}" by simp
  have e: "''ERROR'' \<notin> {''GREEN'', ''YELLOW'', ''RED''}" by simp
  from get_regime_params_default_green [OF u] get_regime_params_default_green [OF e] u
  show ?thesis by blast
qed

subsection \<open>Open risk\<close>

lemma calculate_dynamic_or_value:
  "0 < u \<Longrightarrow>
     calculate_dynamic_or e s q u = Inr (if s \<ge> e then 0 else (e - s) * of_int q / u)"
  by (simp add: calculate_dynamic_or_def py_div_def)

text \<open>
  C4. With a positive 1R unit the open risk of a position is 0 when the stop is at or
  above the entry price and (entry - stop) * quantity / unit otherwise; for a held
  quantity (not negative) it does not increase when the stop is raised.
\<close>

theorem calculate_dynamic_or_formula_and_monotone:
  assumes "0 < u"
  shows "(s \<ge> e \<longrightarrow> calculate_dynamic_or e s q u = Inr 0)
       \<and> (s < e \<longrightarrow> calculate_dynamic_or e s q u = Inr ((e - s) * of_int q / u))
       \<and> (0 \<le> q \<and> s \<le> s' \<longrightarrow>
            (\<exists>r r'. calculate_dynamic_or e s q u = Inr r
                  \<and> calculate_dynamic_or e s' q u = Inr r' \<and> r' \<le> r))"
proof (intro conjI impI)
  assume "s \<ge> e"
  then show "calculate_dynamic_or e s q u = Inr 0"
    using assms by (simp add: calculate_dynamic_or_value)
next
  assume "s < e"
  then show "calculate_dynamic_or e s q u = Inr ((e - s) * of_int q / u)"
    using assms by (simp add: calculate_dynamic_or_value)
next
  assume h: "0 \<le> q \<and> s \<le> s'"
  let ?f = "\<lambda>x. if x \<ge> e then 0 else (e - x) * real_of_int q / u"
  have q: "0 \<le> real_of_int q" using h by simp
  have "?f s' \<le> ?f s"
  proof (cases "s' \<ge> e")
    case True
    then show ?thesis using q assms by (simp add: not_le)
  next
    case False
    then have "s < e" using h by simp
    moreover have "(e - s') * real_of_int q \<le> (e - s) * real_of_int q"
      using h q by (intro mult_right_mono) simp_all
    ultimately show ?thesis
      using False assms by (simp add: divide_right_mono)
  qed
  then show "\<exists>r r'. calculate_dynamic_or e s q u = Inr r
                  \<and> calculate_dynamic_or e s' q u = Inr r' \<and> r' \<le> r"
    using assms by (simp add: calculate_dynamic_or_value)
qed

theorem calculate_dynamic_or_formula_and_monotone_witness:
  "(0::real) < 100
   \<and> calculate_dynamic_or 100 95 20 100 = Inr 1
   \<and> calculate_dynamic_or 100 100 20 100 = Inr 0
   \<and> (\<exists>r r'. calculate_dynamic_or 100 95 20 100 = Inr r
           \<and> calculate_dynamic_or 100 98 20 100 = Inr r' \<and> r' \<le> r)"
proof -
  have u: "(0::real) < 100" by simp
  have a: "calculate_dynamic_or 100 95 20 100 = Inr 1"
    using calculate_dynamic_or_formula_and_monotone [OF u, of 100 95 20 98] by simp
  have b: "calculate_dynamic_or 100 100 20 100 = Inr 0"
    using calculate_dynamic_or_formula_and_monotone [OF u, of 100 100 20 100] by simp
  have h: "(0::int) \<le> 20 \<and> (95::real) \<le> 98" by simp
  have c: "\<exists>r r'. calculate_dynamic_or 100 95 20 100 = Inr r
           \<and> calculate_dynamic_or 100 98 20 100 = Inr r' \<and> r' \<le> r"
    using calculate_dynamic_or_formula_and_monotone [OF u, of 100 95 20 98] h by blast
  from u a b c show ?thesis by blast
qed

text \<open>
  C10. With a 1R unit that is zero or negative both open-risk computations return 0,
  and for no input at all does either of them raise: the division is only reached
  with a positive divisor.
\<close>

theorem open_risk_division_guarded:
  "(u \<le> 0 \<longrightarrow> calculate_dynamic_or e s q u = Inr 0 \<and> calculate_or_r e s q u = Inr 0)
   \<and> (\<exists>r. calculate_dynamic_or e s q u = Inr r)
   \<and> (\<exists>r. calculate_or_r e s q u = Inr r)"
  by (simp add: calculate_dynamic_or_def calculate_or_r_def py_div_def Let_def)

theorem open_risk_division_guarded_witness:
  "(0::real) \<le> 0
   \<and> calculate_dynamic_or 100 95 20 0 = Inr 0 \<and> calculate_or_r 100 95 20 0 = Inr 0
   \<and> calculate_dynamic_or 100 95 20 (-50) = Inr 0 \<and> calculate_or_r 100 95 20 (-50) = Inr 0"
proof -
  have z: "(0::real) \<le> 0" by simp
  have n: "(-50::real) \<le> 0" by simp
  from open_risk_division_guarded [of 0 100 95 20] open_risk_division_guarded [of "-50" 100 95 20] z n
  show ?thesis by blast
qed

subsection \<open>The stop update\<close>

text \<open>
  C8. Updating the stop of an open position writes the new value into \<open>stop_loss\<close> of
  that row and nothing else: its initial stop, entry price, quantity, sector, entry date
  and breakdown low stay as they were, every other row of the portfolio is unchanged,
  and so are the trade history and the account.
\<close>

theorem update_stop_loss_frame:
  assumes "portfolio d ticker = Some p"
  shows "\<exists>p'. portfolio (update_stop_loss ticker new_stop d) ticker = Some p'
       \<and> pf_stop_loss p' = new_stop
       \<and> pf_initial_stop_loss p' = pf_initial_stop_loss p
       \<and> pf_entry_price p' = pf_entry_price p
       \<and> pf_quantity p' = pf_quantity p
       \<and> pf_sector p' = pf_sector p
       \<and> pf_entry_date p' = pf_entry_date p
       \<and> pf_breakdown_low p' = pf_breakdown_low p
       \<and> (\<forall>t. t \<noteq> ticker \<longrightarrow> portfolio (update_stop_loss ticker new_stop d) t = portfolio d t)
       \<and> trade_history (update_stop_loss ticker new_stop d) = trade_history d
       \<and> ac_total_equity (update_stop_loss ticker new_stop d) = ac_total_equity d
       \<and> ac_last_updated (update_stop_loss ticker new_stop d) = ac_last_updated d"
  using assms by (simp add: update_stop_loss_def)

lemma example_db_AAPL: "portfolio example_db ''AAPL'' = Some example_position"
  by (simp add: example_db_def)

theorem update_stop_loss_frame_witness:
  "portfolio example_db ''AAPL'' = Some example_position
   \<and> (\<exists>p'. portfolio (update_stop_loss ''AAPL'' 100 example_db) ''AAPL'' = Some p'
         \<and> pf_stop_loss p' = 100 \<and> pf_initial_stop_loss p' = Some 95)"
proof -
  have h: "portfolio example_db ''AAPL'' = Some example_position"
    by (simp add: example_db_def)
  from update_stop_loss_frame [OF h, of 100] obtain p' where
    "portfolio (update_stop_loss ''AAPL'' 100 example_db) ''AAPL'' = Some p'"
    "pf_stop_loss p' = 100" "pf_initial_stop_loss p' = pf_initial_stop_loss example_position"
    by blast
  then show ?thesis using h by (auto simp: example_position_def)
qed

subsection \<open>Rounding\<close>

lemma pow2_pos: "0 < pow2 k"
  by (simp add: pow2_def)

lemma pow2_succ: "pow2 (k + 1) = 2 * pow2 k"
proof (cases "0 \<le> k")
  case True
  then show ?thesis by (simp add: pow2_def nat_add_distrib)
next
  case False
  then have "nat (- k) = Suc (nat (- (k + 1)))" by simp
  then show ?thesis using False by (simp add: pow2_def)
qed

lemma pow2_pred: "pow2 (k - 1) = pow2 k / 2"
  using pow2_succ [of "k - 1"] by simp

lemma pow2_add_nat: "pow2 (k + int n) = pow2 k * 2 ^ n"
proof (induction n)
  case 0
  show ?case by simp
next
  case (Suc n)
  have "k + int (Suc n) = (k + int n) + 1" by simp
  then have "pow2 (k + int (Suc n)) = 2 * pow2 (k + int n)" by (simp only: pow2_succ)
  with Suc show ?case by simp
qed

lemma ilog2_bounds: "0 < y \<Longrightarrow> pow2 (ilog2 y) \<le> y \<and> y < pow2 (ilog2 y + 1)"
proof (induction y rule: ilog2.induct)
  case (1 y)
  show ?case
  proof (cases "y < 1")
    case True
    with 1 have ih: "pow2 (ilog2 (2 * y)) \<le> 2 * y \<and> 2 * y < pow2 (ilog2 (2 * y) + 1)"
      by simp
    have e: "ilog2 y = ilog2 (2 * y) - 1"
      using True 1 by (subst ilog2.simps) simp
    show ?thesis unfolding e using ih by (simp add: pow2_pred pow2_succ)
  next
    case False
    show ?thesis
    proof (cases "2 \<le> y")
      case True
      with 1 False have ih: "pow2 (ilog2 (y / 2)) \<le> y / 2 \<and> y / 2 < pow2 (ilog2 (y / 2) + 1)"
        by simp
      have e: "ilog2 y = ilog2 (y / 2) + 1"
        using True False 1 by (subst ilog2.simps) simp
      have s1: "pow2 (ilog2 (y / 2) + 1) = 2 * pow2 (ilog2 (y / 2))"
        and s2: "pow2 (ilog2 (y / 2) + 1 + 1) = 2 * pow2 (ilog2 (y / 2) + 1)"
        by (rule pow2_succ)+
      from ih have "2 * pow2 (ilog2 (y / 2)) \<le> y" "y < 2 * (2 * pow2 (ilog2 (y / 2)))"
        unfolding s1 by simp_all
      then show ?thesis unfolding e s2 s1 by simp
    next
      case F2: False
      then have e: "ilog2 y = 0"
        using False 1 by (subst ilog2.simps) simp
      show ?thesis unfolding e using False F2 by (simp add: pow2_def)
    qed
  qed
qed

lemma round_half_even_error: "\<bar>of_int (round_half_even z) - z\<bar> \<le> 1 / 2"
proof -
  have "of_int \<lfloor>z\<rfloor> \<le> z" "z < of_int \<lfloor>z\<rfloor> + 1" by linarith+
  then show ?thesis
    by (auto simp: round_half_even_def Let_def)
qed

lemma round_half_even_ge: "of_int n \<le> z \<Longrightarrow> n \<le> round_half_even z"
proof -
  assume "of_int n \<le> z"
  then have "n \<le> \<lfloor>z\<rfloor>" by (simp add: le_floor_iff)
  then show ?thesis by (auto simp: round_half_even_def Let_def)
qed

text \<open>The relative error of one rounding is at most 2^-53.\<close>

lemma fl_error: "\<bar>fl x - x\<bar> \<le> \<bar>x\<bar> / 2 ^ 53"
proof (cases "x = 0")
  case True
  then show ?thesis by (simp add: fl_def)
next
  case False
  define e where "e = ilog2 \<bar>x\<bar> - 52"
  have p: "0 < pow2 e" by (rule pow2_pos)
  have "pow2 (e + int 52) \<le> \<bar>x\<bar>"
    using ilog2_bounds [of "\<bar>x\<bar>"] False by (simp add: e_def)
  then have lo: "pow2 e * 2 ^ 52 \<le> \<bar>x\<bar>" by (simp only: pow2_add_nat)
  have "fl x - x = (of_int (round_half_even (x / pow2 e)) - x / pow2 e) * pow2 e"
    using False p by (simp add: fl_def e_def Let_def field_simps)
  then have "\<bar>fl x - x\<bar> = \<bar>of_int (round_half_even (x / pow2 e)) - x / pow2 e\<bar> * pow2 e"
    using p by (simp add: abs_mult)
  also have "\<dots> \<le> (1 / 2) * pow2 e"
    using p round_half_even_error [of "x / pow2 e"] by (intro mult_right_mono) simp_all
  also have "\<dots> \<le> \<bar>x\<bar> / 2 ^ 53" using lo by simp
  finally show ?thesis .
qed

lemma fl_pos: "0 < x \<Longrightarrow> 0 < fl x"
proof -
  assume x: "0 < x"
  define e where "e = ilog2 \<bar>x\<bar> - 52"
  have p: "0 < pow2 e" by (rule pow2_pos)
  have "pow2 (e + int 52) \<le> \<bar>x\<bar>"
    using ilog2_bounds [of "\<bar>x\<bar>"] x by (simp add: e_def)
  then have "pow2 e * 2 ^ 52 \<le> \<bar>x\<bar>" by (simp only: pow2_add_nat)
  then have "pow2 e * 2 ^ 52 \<le> x" using x by simp
  then have "of_int (2 ^ 52) \<le> x / pow2 e" using p by (simp add: field_simps)
  then have "(2 ^ 52 :: int) \<le> round_half_even (x / pow2 e)" by (rule round_half_even_ge)
  moreover have "(0::int) < 2 ^ 52" by simp
  ultimately have "0 < round_half_even (x / pow2 e)" by (rule less_le_trans [rotated])
  then show ?thesis using x p by (simp add: fl_def e_def Let_def)
qed

lemma fl_zero: "fl 0 = 0"
  by (simp add: fl_def)

subsection \<open>Accumulated rounding error\<close>

lemma errw_exact: "\<bar>x\<bar> \<le> M \<Longrightarrow> errw 0 M x x"
  by (simp add: errw_def)

lemma errw_magnitude:
  assumes "errw k M x y"
  shows "\<bar>y\<bar> \<le> M * (1 + 1 / 2 ^ 53) ^ k"
proof -
  have "\<bar>y\<bar> \<le> \<bar>x\<bar> + \<bar>y - x\<bar>" by simp
  also have "\<dots> \<le> M + M * ((1 + 1 / 2 ^ 53) ^ k - 1)"
    using assms by (simp add: errw_def)
  finally show ?thesis by (simp add: algebra_simps)
qed

lemma errw_fl:
  assumes "errw k M x y"
  shows "errw (Suc k) M x (fl y)"
proof -
  let ?c = "(1 + 1 / 2 ^ 53 :: real)"
  have "\<bar>fl y - x\<bar> \<le> \<bar>fl y - y\<bar> + \<bar>y - x\<bar>" by simp
  also have "\<dots> \<le> \<bar>y\<bar> / 2 ^ 53 + M * (?c ^ k - 1)"
    using fl_error [of y] assms by (simp add: errw_def)
  also have "\<dots> \<le> (M * ?c ^ k) / 2 ^ 53 + M * (?c ^ k - 1)"
    using errw_magnitude [OF assms] by (simp add: divide_right_mono)
  also have "\<dots> = M * (?c ^ Suc k - 1)" by (simp add: algebra_simps)
  finally show ?thesis using assms by (simp add: errw_def)
qed

lemma errw_add:
  assumes "errw k M x y" "errw k N x' y'"
  shows "errw k (M + N) (x + x') (y + y')"
proof -
  have "\<bar>(y + y') - (x + x')\<bar> \<le> \<bar>y - x\<bar> + \<bar>y' - x'\<bar>" by simp
  also have "\<dots> \<le> M * ((1 + 1 / 2 ^ 53) ^ k - 1) + N * ((1 + 1 / 2 ^ 53) ^ k - 1)"
    using assms by (simp add: errw_def add_mono)
  finally have "\<bar>(y + y') - (x + x')\<bar> \<le> (M + N) * ((1 + 1 / 2 ^ 53) ^ k - 1)"
    by (simp add: algebra_simps)
  moreover have "\<bar>x + x'\<bar> \<le> M + N" using assms by (simp add: errw_def) linarith
  ultimately show ?thesis by (simp add: errw_def)
qed

lemma errw_mult:
  assumes "errw j M a b" "errw k N c d"
  shows "errw (j + k) (M * N) (a * c) (b * d)"
proof -
  let ?c = "(1 + 1 / 2 ^ 53 :: real)"
  have M: "0 \<le> M" and N: "0 \<le> N" using assms by (simp_all add: errw_def) linarith+
  have cj: "1 \<le> ?c ^ j" and ck: "1 \<le> ?c ^ k" by (simp_all add: one_le_power)
  have b: "\<bar>b\<bar> \<le> M * ?c ^ j" by (rule errw_magnitude [OF assms(1)])
  have "b * d - a * c = b * (d - c) + (b - a) * c" by (simp add: algebra_simps)
  then have "\<bar>b * d - a * c\<bar> \<le> \<bar>b\<bar> * \<bar>d - c\<bar> + \<bar>b - a\<bar> * \<bar>c\<bar>"
    by (metis abs_mult abs_triangle_ineq)
  also have "\<dots> \<le> (M * ?c ^ j) * (N * (?c ^ k - 1)) + (M * (?c ^ j - 1)) * N"
  proof (intro add_mono mult_mono)
    show "\<bar>b\<bar> \<le> M * ?c ^ j" by (rule b)
    show "\<bar>d - c\<bar> \<le> N * (?c ^ k - 1)" using assms(2) by (simp add: errw_def)
    show "\<bar>b - a\<bar> \<le> M * (?c ^ j - 1)" using assms(1) by (simp add: errw_def)
    show "\<bar>c\<bar> \<le> N" using assms(2) by (simp add: errw_def)
    show "0 \<le> M * ?c ^ j" using M by simp
    show "0 \<le> M * (?c ^ j - 1)" using M cj by simp
  qed simp_all
  also have "\<dots> = M * N * (?c ^ (j + k) - 1)" by (simp add: algebra_simps power_add)
  finally have "\<bar>b * d - a * c\<bar> \<le> M * N * (?c ^ (j + k) - 1)" .
  moreover have "\<bar>a * c\<bar> \<le> M * N"
    using assms M by (simp add: errw_def abs_mult mult_mono)
  ultimately show ?thesis by (simp add: errw_def)
qed

lemma errw_inverse_fl:
  assumes "0 < c"
  shows "errw 2 (1 / c) (1 / c) (1 / fl c)"
proof -
  have d: "0 < fl c" using assms by (rule fl_pos)
  have e: "\<bar>fl c - c\<bar> \<le> c / 2 ^ 53" using fl_error [of c] assms by simp
  then have "c - fl c \<le> c / 2 ^ 53" by linarith
  then have lo: "c * (1 - 1 / 2 ^ 53) \<le> fl c" by (simp add: algebra_simps)
  have "1 / fl c - 1 / c = (c - fl c) / (fl c * c)"
    using assms d by (simp add: field_simps)
  then have "\<bar>1 / fl c - 1 / c\<bar> = \<bar>fl c - c\<bar> / (fl c * c)"
    using assms d by (simp add: abs_minus_commute)
  also have "\<dots> \<le> (c / 2 ^ 53) / (fl c * c)"
    using e assms d by (intro divide_right_mono) simp_all
  also have "\<dots> = (1 / 2 ^ 53) / fl c" using assms by simp
  also have "\<dots> \<le> (1 / 2 ^ 53) / (c * (1 - 1 / 2 ^ 53))"
    using lo assms by (intro divide_left_mono mult_pos_pos) simp_all
  also have "\<dots> \<le> (1 / c) * ((1 + 1 / 2 ^ 53) ^ 2 - 1)"
    using assms by (simp add: field_simps power2_eq_square)
  finally show ?thesis using assms by (simp add: errw_def)
qed

lemma errw_bound:
  assumes "errw k M x y" "k \<le> 7"
  shows "\<bar>y - x\<bar> \<le> M / 2 ^ 50"
proof -
  let ?c = "(1 + 1 / 2 ^ 53 :: real)"
  have M: "0 \<le> M" using assms by (simp add: errw_def) linarith
  have "?c ^ k \<le> ?c ^ 7" using assms(2) by (intro power_increasing) simp_all
  also have "\<dots> \<le> 1 + 1 / 2 ^ 50" by (simp add: power_def)
  finally have "?c ^ k - 1 \<le> 1 / 2 ^ 50" by simp
  then have "M * (?c ^ k - 1) \<le> M * (1 / 2 ^ 50)" using M by (rule mult_left_mono)
  with assms(1) show ?thesis by (simp add: errw_def)
qed


subsection \<open>Merging an additive fill\<close>

text \<open>Unfolding these evaluates a rounding of a numeral.\<close>

lemmas fl_eval = fl_def round_half_even_def pow2_def ilog2.simps py_float_def fl_div_def

lemma upper_AAPL: "upper ''aapl'' = ''AAPL''"
  by code_simp

lemma py_float_pos: "0 < n \<Longrightarrow> 0 < py_float n"
  by (simp add: py_float_def fl_pos)

lemma py_float_errw: "0 < n \<Longrightarrow> errw 1 (of_int n) (of_int n) (py_float n)"
  unfolding py_float_def using errw_fl [OF errw_exact [of "of_int n" "of_int n"]] by simp

lemma wac_errw:
  fixes P e :: real and m n :: int
  assumes m: "0 < m" and n: "0 < n"
  shows "errw 6 ((\<bar>P\<bar> * of_int m + \<bar>e\<bar> * of_int n) / of_int (m + n))
           ((P * of_int m + e * of_int n) / of_int (m + n))
           (fl (fl (fl (P * py_float m) + fl (e * py_float n)) / py_float (m + n)))"
proof -
  have pm: "errw 1 (\<bar>P\<bar> * of_int m) (P * of_int m) (P * py_float m)"
    using errw_mult [OF errw_exact [of P "\<bar>P\<bar>"] py_float_errw [OF m]] by simp
  have en: "errw 1 (\<bar>e\<bar> * of_int n) (e * of_int n) (e * py_float n)"
    using errw_mult [OF errw_exact [of e "\<bar>e\<bar>"] py_float_errw [OF n]] by simp
  have A: "errw 2 (\<bar>P\<bar> * of_int m) (P * of_int m) (fl (P * py_float m))"
    using errw_fl [OF pm] by (simp add: numeral_2_eq_2)
  have B: "errw 2 (\<bar>e\<bar> * of_int n) (e * of_int n) (fl (e * py_float n))"
    using errw_fl [OF en] by (simp add: numeral_2_eq_2)
  have S: "errw 3 (\<bar>P\<bar> * of_int m + \<bar>e\<bar> * of_int n) (P * of_int m + e * of_int n)
             (fl (fl (P * py_float m) + fl (e * py_float n)))"
    using errw_fl [OF errw_add [OF A B]] by simp
  have t: "0 < (of_int (m + n) :: real)" using m n by simp
  have c: "errw 2 (1 / of_int (m + n)) (1 / of_int (m + n)) (1 / py_float (m + n))"
    unfolding py_float_def by (rule errw_inverse_fl [OF t])
  have "errw 5 ((\<bar>P\<bar> * of_int m + \<bar>e\<bar> * of_int n) * (1 / of_int (m + n)))
          ((P * of_int m + e * of_int n) * (1 / of_int (m + n)))
          (fl (fl (P * py_float m) + fl (e * py_float n)) * (1 / py_float (m + n)))"
    using errw_mult [OF S c] by simp
  then have "errw 6 ((\<bar>P\<bar> * of_int m + \<bar>e\<bar> * of_int n) * (1 / of_int (m + n)))
          ((P * of_int m + e * of_int n) * (1 / of_int (m + n)))
          (fl (fl (fl (P * py_float m) + fl (e * py_float n)) * (1 / py_float (m + n))))"
    using errw_fl by fastforce
  then show ?thesis by simp
qed

lemma wac_magnitude:
  fixes P e :: real and m n :: int
  assumes "0 < m" "0 < n"
  shows "(\<bar>P\<bar> * of_int m + \<bar>e\<bar> * of_int n) / of_int (m + n) \<le> max \<bar>P\<bar> \<bar>e\<bar>"
proof -
  have pos: "0 < (of_int (m + n) :: real)" using assms by simp
  have "\<bar>P\<bar> * of_int m \<le> max \<bar>P\<bar> \<bar>e\<bar> * of_int m" "\<bar>e\<bar> * of_int n \<le> max \<bar>P\<bar> \<bar>e\<bar> * of_int n"
    using assms by (simp_all add: mult_right_mono)
  then have "\<bar>P\<bar> * of_int m + \<bar>e\<bar> * of_int n \<le> max \<bar>P\<bar> \<bar>e\<bar> * of_int (m + n)"
    by (simp add: algebra_simps)
  then show ?thesis using pos by (simp only: pos_divide_le_eq)
qed

lemma wac_between:
  fixes a b :: real and m n :: int
  assumes "0 < m" "0 < n"
  shows "min a b \<le> (a * of_int m + b * of_int n) / of_int (m + n)"
    and "(a * of_int m + b * of_int n) / of_int (m + n) \<le> max a b"
proof -
  have pos: "0 < (of_int (m + n) :: real)" using assms by simp
  have m: "0 \<le> (of_int m :: real)" and n: "0 \<le> (of_int n :: real)" using assms by simp_all
  have "min a b * of_int m \<le> a * of_int m" "min a b * of_int n \<le> b * of_int n"
    using m n by (simp_all add: mult_right_mono)
  then have "min a b * of_int (m + n) \<le> a * of_int m + b * of_int n"
    by (simp add: algebra_simps)
  then show "min a b \<le> (a * of_int m + b * of_int n) / of_int (m + n)"
    using pos by (simp only: pos_le_divide_eq)
  have "a * of_int m \<le> max a b * of_int m" "b * of_int n \<le> max a b * of_int n"
    using m n by (simp_all add: mult_right_mono)
  then have "a * of_int m + b * of_int n \<le> max a b * of_int (m + n)"
    by (simp add: algebra_simps)
  then show "(a * of_int m + b * of_int n) / of_int (m + n) \<le> max a b"
    using pos by (simp only: pos_divide_le_eq)
qed

text \<open>
  C3, as stated, fails for the code: in doubles the average can leave the interval of
  the two fill prices. Merging 2 shares at 100.1 into 1 share at 100.1 stores
  100.09999999999998, which is below both.
\<close>

theorem add_position_merge_counterexample:
  "(case portfolio (snd (add_position ''AAPL'' (fl (1001 / 10)) 95 2 ''Tech/AI'' ''2024-02-01''
                      same_price_db)) ''AAPL'' of
      None \<Rightarrow> False
    | Some p' \<Rightarrow> pf_entry_price p' < min (fl (1001 / 10)) (fl (1001 / 10)))"
  by (simp add: add_position_def same_price_db_def upper_def upper_char_def fl_eval)

text \<open>
  C3, amended. When a row for the (upper-cased) ticker exists and both the held and the
  added quantity are positive, \<open>add_position\<close> merges: the new entry price is the
  volume-weighted average of the old price and the new fill as computed in doubles. It
  differs from the exact average by at most max(|old price|, |new price|) / 2^50, and so
  lies between the two prices up to that tolerance. The new quantity is the exact sum,
  and both the stop and the initial stop are the stop of the new fill.
\<close>

theorem add_position_merge:
  assumes "portfolio d (upper ticker) = Some p" "0 < pf_quantity p" "0 < qty"
  shows "\<exists>d' p'. add_position ticker entry stop qty sector today d = (Merged (pf_entry_price p'), d')
       \<and> portfolio d' (upper ticker) = Some p'
       \<and> pf_entry_price p' =
           fl (fl (fl (pf_entry_price p * py_float (pf_quantity p)) + fl (entry * py_float qty))
                 / py_float (pf_quantity p + qty))
       \<and> \<bar>pf_entry_price p' -
            (pf_entry_price p * of_int (pf_quantity p) + entry * of_int qty)
              / of_int (pf_quantity p + qty)\<bar>
           \<le> max \<bar>pf_entry_price p\<bar> \<bar>entry\<bar> / 2 ^ 50
       \<and> min (pf_entry_price p) entry - max \<bar>pf_entry_price p\<bar> \<bar>entry\<bar> / 2 ^ 50
           \<le> pf_entry_price p'
       \<and> pf_entry_price p'
           \<le> max (pf_entry_price p) entry + max \<bar>pf_entry_price p\<bar> \<bar>entry\<bar> / 2 ^ 50
       \<and> pf_quantity p' = pf_quantity p + qty
       \<and> pf_stop_loss p' = stop
       \<and> pf_initial_stop_loss p' = Some stop"
proof -
  let ?P = "pf_entry_price p" and ?m = "pf_quantity p"
  let ?W = "(?P * of_int ?m + entry * of_int qty) / of_int (?m + qty)"
  let ?w = "fl (fl (fl (?P * py_float ?m) + fl (entry * py_float qty)) / py_float (?m + qty))"
  let ?tol = "max \<bar>?P\<bar> \<bar>entry\<bar> / 2 ^ 50"
  let ?p' = "p\<lparr>pf_entry_price := ?w, pf_quantity := ?m + qty,
               pf_stop_loss := stop, pf_sector := sector, pf_initial_stop_loss := Some stop\<rparr>"
  have nz: "py_float (?m + qty) \<noteq> 0"
    using py_float_pos [of "?m + qty"] assms by simp
  have run: "add_position ticker entry stop qty sector today d =
          (Merged ?w, d\<lparr>portfolio := (portfolio d)(upper ticker \<mapsto> ?p')\<rparr>)"
    using assms(1) nz by (simp add: add_position_def fl_div_def Let_def)
  have "\<bar>?w - ?W\<bar> \<le> ((\<bar>?P\<bar> * of_int ?m + \<bar>entry\<bar> * of_int qty) / of_int (?m + qty)) / 2 ^ 50"
    by (rule errw_bound [OF wac_errw [OF assms(2,3)]]) simp
  also have "\<dots> \<le> ?tol"
    by (rule divide_right_mono [OF wac_magnitude [OF assms(2,3)]]) simp
  finally have err: "\<bar>?w - ?W\<bar> \<le> ?tol" .
  have lo: "min ?P entry \<le> ?W" and hi: "?W \<le> max ?P entry"
    using wac_between [OF assms(2,3)] by blast+
  have lo': "min ?P entry - ?tol \<le> ?w" and hi': "?w \<le> max ?P entry + ?tol"
    using err lo hi by linarith+
  show ?thesis
    apply (rule exI [of _ "d\<lparr>portfolio := (portfolio d)(upper ticker \<mapsto> ?p')\<rparr>"])
    apply (rule exI [of _ ?p'])
    using run err lo' hi' by simp
qed

theorem add_position_merge_witness:
  "portfolio example_db (upper ''aapl'') = Some example_position
   \<and> 0 < pf_quantity example_position \<and> (0::int) < 20
   \<and> (\<exists>d' p'. add_position ''aapl'' 110 105 20 ''IT'' ''2024-02-01'' example_db
                   = (Merged (pf_entry_price p'), d')
         \<and> portfolio d' (upper ''aapl'') = Some p'
         \<and> pf_entry_price p' = 105 \<and> pf_quantity p' = 40
         \<and> pf_stop_loss p' = 105 \<and> pf_initial_stop_loss p' = Some 105)"
proof -
  have h1: "portfolio example_db (upper ''aapl'') = Some example_position"
    by (simp add: upper_AAPL example_db_def)
  have h2: "0 < pf_quantity example_position" by (simp add: example_position_def)
  have h3: "(0::int) < 20" by simp
  from add_position_merge [OF h1 h2 h3, of 110 105 "''IT''" "''2024-02-01''"]
  obtain d' p' where r:
    "add_position ''aapl'' 110 105 20 ''IT'' ''2024-02-01'' example_db = (Merged (pf_entry_price p'), d')"
    "portfolio d' (upper ''aapl'') = Some p'"
    "pf_entry_price p' =
       fl (fl (fl (pf_entry_price example_position * py_float (pf_quantity example_position))
               + fl (110 * py_float 20))
             / py_float (pf_quantity example_position + 20))"
    "pf_quantity p' = pf_quantity example_position + 20"
    "pf_stop_loss p' = 105" "pf_initial_stop_loss p' = Some 105"
    by blast
  have "pf_entry_price p' = 105"
    unfolding r(3) by (simp add: example_position_def fl_eval)
  moreover have "pf_quantity p' = 40"
    using r(4) by (simp add: example_position_def)
  ultimately show ?thesis using r h1 h2 h3 by blast
qed

subsection \<open>Exits\<close>

lemma close_r_multiple_value:
  "close_r_multiple x e s = Inr (if \<bar>e - s\<bar> = 0 then 0 else (x - e) / \<bar>e - s\<bar>)"
  by (simp add: close_r_multiple_def py_div_def Let_def)

lemma close_position_run:
  assumes "portfolio d ticker = Some p"
  shows "close_position ticker exit_price qty today now d =
     (let init_stop = (case pf_initial_stop_loss p of None \<Rightarrow> pf_stop_loss p | Some s \<Rightarrow> s);
          closed = min qty (pf_quantity p);
          r = (if \<bar>pf_entry_price p - init_stop\<bar> = 0 then 0
               else (exit_price - pf_entry_price p) / \<bar>pf_entry_price p - init_stop\<bar>)
      in Inr (d\<lparr>trade_history := trade_history d @
                  [\<lparr>th_ticker = ticker, th_entry_date = pf_entry_date p, th_exit_date = today,
                    th_entry_price = pf_entry_price p, th_exit_price = exit_price,
                    th_r_multiple = r, th_trade_id = ticker @ ''_'' @ pf_entry_date p,
                    th_exit_qty = closed\<rparr>],
                ac_total_equity := ac_total_equity d + (exit_price - pf_entry_price p) * of_int closed,
                ac_last_updated := now,
                portfolio := (if pf_quantity p - closed > 0
                              then (portfolio d)(ticker \<mapsto> p\<lparr>pf_quantity := pf_quantity p - closed\<rparr>)
                              else (portfolio d)(ticker := None))\<rparr>))"
proof -
  have m: "(if qty > pf_quantity p then pf_quantity p else qty) = min qty (pf_quantity p)"
    by (simp add: min_def)
  show ?thesis
    using assms unfolding close_position_def Let_def m close_r_multiple_value bind_err_def
    by simp
qed

lemma process_partial_exit_run:
  assumes "portfolio d ticker = Some p"
  shows "process_partial_exit ticker exit_qty exit_px entry_px u today now d =
     (let calc_stop = (case pf_initial_stop_loss p of Some s \<Rightarrow> s | None \<Rightarrow> pf_stop_loss p);
          r = (if \<bar>entry_px - calc_stop\<bar> = 0 then 0
               else (exit_px - entry_px) / \<bar>entry_px - calc_stop\<bar>)
      in Inr (d\<lparr>trade_history := trade_history d @
                  [\<lparr>th_ticker = ticker @ ''(P)'', th_entry_date = pf_entry_date p,
                    th_exit_date = today, th_entry_price = entry_px, th_exit_price = exit_px,
                    th_r_multiple = r, th_trade_id = ticker @ ''_'' @ pf_entry_date p,
                    th_exit_qty = exit_qty\<rparr>],
                ac_total_equity := ac_total_equity d + (exit_px - entry_px) * of_int exit_qty,
                ac_last_updated := now,
                portfolio := (if pf_quantity p - exit_qty \<le> 0
                              then (portfolio d)(ticker := None)
                              else (portfolio d)(ticker \<mapsto> p\<lparr>pf_quantity := pf_quantity p - exit_qty\<rparr>))\<rparr>))"
  using assms unfolding process_partial_exit_def Let_def bind_err_def py_div_def
  by (simp split: option.splits)

text \<open>
  C7. An exit on an open position whose initial stop is stored returns normally and
  appends one row to the trade history, whose R multiple is (exit price - entry price)
  divided by the distance between entry price and initial stop, and 0 when that distance
  is 0: the division is not reached then, so nothing is raised. This holds for
  \<open>close_position\<close> and for \<open>process_partial_exit\<close> called, as its caller does, with the
  entry price of the row. In the witness, entry 100, initial stop 95 and exit 110 give
  an R multiple of 2.
\<close>

theorem exit_r_multiple_frozen_denominator:
  assumes "portfolio d ticker = Some p" "pf_initial_stop_loss p = Some s0"
  shows "(\<exists>d' row. close_position ticker exit_price qty today now d = Inr d'
            \<and> trade_history d' = trade_history d @ [row]
            \<and> th_r_multiple row =
                (if \<bar>pf_entry_price p - s0\<bar> = 0 then 0
                 else (exit_price - pf_entry_price p) / \<bar>pf_entry_price p - s0\<bar>))
       \<and> (\<exists>d' row. process_partial_exit ticker qty exit_price (pf_entry_price p) u today now d = Inr d'
            \<and> trade_history d' = trade_history d @ [row]
            \<and> th_r_multiple row =
                (if \<bar>pf_entry_price p - s0\<bar> = 0 then 0
                 else (exit_price - pf_entry_price p) / \<bar>pf_entry_price p - s0\<bar>))"
proof (rule conjI)
  show "\<exists>d' row. close_position ticker exit_price qty today now d = Inr d'
            \<and> trade_history d' = trade_history d @ [row]
            \<and> th_r_multiple row =
                (if \<bar>pf_entry_price p - s0\<bar> = 0 then 0
                 else (exit_price - pf_entry_price p) / \<bar>pf_entry_price p - s0\<bar>)"
    unfolding close_position_run [OF assms(1)] Let_def using assms(2) by simp
  show "\<exists>d' row. process_partial_exit ticker qty exit_price (pf_entry_price p) u today now d = Inr d'
            \<and> trade_history d' = trade_history d @ [row]
            \<and> th_r_multiple row =
                (if \<bar>pf_entry_price p - s0\<bar> = 0 then 0
                 else (exit_price - pf_entry_price p) / \<bar>pf_entry_price p - s0\<bar>)"
    unfolding process_partial_exit_run [OF assms(1)] Let_def using assms(2) by simp
qed


theorem exit_r_multiple_frozen_denominator_witness:
  "portfolio example_db ''AAPL'' = Some example_position
   \<and> pf_initial_stop_loss example_position = Some 95
   \<and> (\<exists>d' row. close_position ''AAPL'' 110 20 ''2024-03-01'' ''2024-03-01 10:00:00'' example_db = Inr d'
          \<and> trade_history d' = trade_history example_db @ [row] \<and> th_r_multiple row = 2)"
proof -
  have h1: "portfolio example_db ''AAPL'' = Some example_position"
    by (simp add: example_db_def)
  have h2: "pf_initial_stop_loss example_position = Some 95"
    by (simp add: example_position_def)
  from exit_r_multiple_frozen_denominator [OF h1 h2, of 110 20 "''2024-03-01''" "''2024-03-01 10:00:00''"]
  obtain d' row where r:
    "close_position ''AAPL'' 110 20 ''2024-03-01'' ''2024-03-01 10:00:00'' example_db = Inr d'"
    "trade_history d' = trade_history example_db @ [row]"
    "th_r_multiple row =
       (if \<bar>pf_entry_price example_position - 95\<bar> = 0 then 0
        else (110 - pf_entry_price example_position) / \<bar>pf_entry_price example_position - 95\<bar>)"
    by blast
  have "th_r_multiple row = 2" using r(3) by (simp add: example_position_def)
  with r h1 h2 show ?thesis by blast
qed

text \<open>
  \<open>close_position\<close> closes the smaller of the requested and the held quantity, credits the
  account for that quantity, and deletes the row exactly when nothing remains.
\<close>

lemma close_position_clamps:
  assumes "portfolio d ticker = Some p"
  shows "\<exists>d' row. close_position ticker exit_price qty today now d = Inr d'
       \<and> trade_history d' = trade_history d @ [row]
       \<and> th_exit_qty row = min qty (pf_quantity p)
       \<and> ac_total_equity d' =
           ac_total_equity d + (exit_price - pf_entry_price p) * of_int (min qty (pf_quantity p))
       \<and> portfolio d' ticker =
           (if pf_quantity p - min qty (pf_quantity p) \<le> 0 then None
            else Some (p\<lparr>pf_quantity := pf_quantity p - min qty (pf_quantity p)\<rparr>))"
  unfolding close_position_run [OF assms] Let_def by simp

text \<open>
  C2. Every exit is to close min(exitQty, Q) shares of a position of Q.
  \<open>process_partial_exit\<close> has no such clamp: asked to sell 30 shares of a position of
  20, it records an exit of 30 shares, credits the account for 30 shares
  (10 * 30 = 300, not 200), and deletes the row. \<open>close_position\<close> on the same request
  records 20 shares and credits 200.
\<close>

theorem process_partial_exit_not_clamped:
  "(case process_partial_exit ''AAPL'' 30 110 100 100 ''2024-03-01'' ''2024-03-01 10:00:00'' example_db of
      Inl err \<Rightarrow> False
    | Inr d' \<Rightarrow> map th_exit_qty (trade_history d') = [30]
              \<and> ac_total_equity d' = 10300
              \<and> portfolio d' ''AAPL'' = None)
   \<and> pf_quantity example_position = 20 \<and> min (30::int) 20 = 20"
  unfolding process_partial_exit_run [OF example_db_AAPL] Let_def
  by (simp add: example_db_def example_position_def)

lemma close_position_same_input_clamped:
  "(case close_position ''AAPL'' 110 30 ''2024-03-01'' ''2024-03-01 10:00:00'' example_db of
      Inl err \<Rightarrow> False
    | Inr d' \<Rightarrow> map th_exit_qty (trade_history d') = [20]
              \<and> ac_total_equity d' = 10200
              \<and> portfolio d' ''AAPL'' = None)"
  unfolding close_position_run [OF example_db_AAPL] Let_def
  by (simp add: example_db_def example_position_def)

subsection \<open>Regime classifier\<close>

text \<open>
  C5. Once both price histories are there, a recent win rate below 20 makes the
  classifier return RED, whatever the closing prices (and so whatever the two
  comparisons with the 20-day average give) and whatever the checklist count.
\<close>

theorem low_win_rate_forces_red:
  assumes "spy \<noteq> []" "rsp \<noteq> []" "recent_win_rate < 20"
  shows "suggest_market_regime (Closes spy) (Closes rsp) checklist_count recent_win_rate
           = (''RED'', ''#ff3232'', Low_recent_win_rate)"
  using assms by (simp add: suggest_market_regime_def Let_def)

theorem low_win_rate_forces_red_witness:
  "[101, 102 :: real] \<noteq> [] \<and> [50 :: real] \<noteq> [] \<and> (10 :: real) < 20
   \<and> fst (suggest_market_regime (Closes [101, 102]) (Closes [50]) 0 10) = ''RED''"
proof -
  have h1: "[101, 102 :: real] \<noteq> []" and h2: "[50 :: real] \<noteq> []" and h3: "(10 :: real) < 20"
    by simp_all
  from low_win_rate_forces_red [OF h1 h2 h3, of 0]
  have "fst (suggest_market_regime (Closes [101, 102]) (Closes [50]) 0 10) = ''RED''"
    by simp
  with h1 h2 h3 show ?thesis by blast
qed

text \<open>
  Without price data the classifier answers UNKNOWN or ERROR before it looks at the
  win rate.
\<close>

lemma suggest_market_regime_no_data:
  "fst (suggest_market_regime (Closes []) rsp_data checklist_count recent_win_rate)
     \<in> {''UNKNOWN'', ''ERROR''}"
  "fst (suggest_market_regime Provider_raised rsp_data checklist_count recent_win_rate) = ''ERROR''"
  by (simp_all add: suggest_market_regime_def split: history.splits)

text \<open>The other two layers: the base regime from the comparisons, and the downgrade.\<close>

lemma suggest_market_regime_layers:
  assumes "spy \<noteq> []" "rsp \<noteq> []" "\<not> recent_win_rate < 20"
  shows "fst (suggest_market_regime (Closes spy) (Closes rsp) checklist_count recent_win_rate) =
           (let base = base_regime_of spy rsp
            in if checklist_count \<ge> 3
               then (if base = ''GREEN'' then ''YELLOW''
                     else if base = ''YELLOW'' then ''RED'' else base)
               else base)"
  using assms by (simp add: suggest_market_regime_def Let_def)

subsection \<open>Position sizer\<close>

lemma py_int_nonneg: "0 \<le> x \<Longrightarrow> py_int x = \<lfloor>x\<rfloor>"
  by (simp add: py_int_def)

lemma regime_multiplier_pos:
  "get_regime_params regime = Inr rp \<Longrightarrow> 0 < rp_r_multiplier rp"
  by (auto simp: get_regime_params_cases red_params_def yellow_params_def green_params_def
           split: if_splits)

lemma BASE_1R_PCT_pos: "0 < BASE_1R_PCT"
  unfolding BASE_1R_PCT_def by (rule fl_pos) simp

lemma MAX_POS_SIZE_PCT_pos: "0 < MAX_POS_SIZE_PCT"
  unfolding MAX_POS_SIZE_PCT_def by (rule fl_pos) simp

lemma active_1r_unit_errw:
  assumes "0 < total_equity" "0 < r"
  shows "errw 3 (total_equity * (1 / 100 * r)) (total_equity * (1 / 100 * r))
           (fl (total_equity * fl (BASE_1R_PCT * r)))"
proof -
  have b: "errw 1 (1 / 100) (1 / 100) BASE_1R_PCT"
    unfolding BASE_1R_PCT_def using errw_fl [OF errw_exact [of "1 / 100" "1 / 100"]] by simp
  have "errw 1 (1 / 100 * r) (1 / 100 * r) (BASE_1R_PCT * r)"
    using errw_mult [OF b errw_exact [of r r]] assms by simp
  then have "errw 2 (1 / 100 * r) (1 / 100 * r) (fl (BASE_1R_PCT * r))"
    using errw_fl by (fastforce simp: numeral_2_eq_2)
  then have "errw 2 (total_equity * (1 / 100 * r)) (total_equity * (1 / 100 * r))
               (total_equity * fl (BASE_1R_PCT * r))"
    using errw_mult [OF errw_exact [of total_equity total_equity]] assms by fastforce
  then show ?thesis using errw_fl by fastforce
qed

lemma theoretical_quot_errw:
  assumes "0 < total_equity" "0 < r" "stop_p < entry_p"
  shows "errw 6 (total_equity * (1 / 100) * r / (entry_p - stop_p))
           (total_equity * (1 / 100) * r / (entry_p - stop_p))
           (fl (fl (total_equity * fl (BASE_1R_PCT * r)) / fl (entry_p - stop_p)))"
proof -
  have d: "0 < entry_p - stop_p" using assms by simp
  have "errw 5 (total_equity * (1 / 100 * r) * (1 / (entry_p - stop_p)))
          (total_equity * (1 / 100 * r) * (1 / (entry_p - stop_p)))
          (fl (total_equity * fl (BASE_1R_PCT * r)) * (1 / fl (entry_p - stop_p)))"
    using errw_mult [OF active_1r_unit_errw [OF assms(1,2)] errw_inverse_fl [OF d]] by simp
  then have "errw 6 (total_equity * (1 / 100 * r) * (1 / (entry_p - stop_p)))
          (total_equity * (1 / 100 * r) * (1 / (entry_p - stop_p)))
          (fl (fl (total_equity * fl (BASE_1R_PCT * r)) * (1 / fl (entry_p - stop_p))))"
    using errw_fl by fastforce
  then show ?thesis by simp
qed

lemma cap_quot_errw:
  assumes "0 < total_equity" "0 < entry_p"
  shows "errw 3 (total_equity * (20 / 100) / entry_p) (total_equity * (20 / 100) / entry_p)
           (fl (fl (total_equity * MAX_POS_SIZE_PCT) / entry_p))"
proof -
  have b: "errw 1 (20 / 100) (20 / 100) MAX_POS_SIZE_PCT"
    unfolding MAX_POS_SIZE_PCT_def using errw_fl [OF errw_exact [of "20 / 100" "20 / 100"]]
    by simp
  have "errw 1 (total_equity * (20 / 100)) (total_equity * (20 / 100))
          (total_equity * MAX_POS_SIZE_PCT)"
    using errw_mult [OF errw_exact [of total_equity total_equity] b] assms by simp
  then have "errw 2 (total_equity * (20 / 100)) (total_equity * (20 / 100))
          (fl (total_equity * MAX_POS_SIZE_PCT))"
    using errw_fl by (fastforce simp: numeral_2_eq_2)
  then have "errw 2 (total_equity * (20 / 100) * (1 / entry_p))
          (total_equity * (20 / 100) * (1 / entry_p))
          (fl (total_equity * MAX_POS_SIZE_PCT) * (1 / entry_p))"
    using errw_mult [OF _ errw_exact [of "1 / entry_p" "1 / entry_p"]] assms by fastforce
  then have "errw 3 (total_equity * (20 / 100) * (1 / entry_p))
          (total_equity * (20 / 100) * (1 / entry_p))
          (fl (fl (total_equity * MAX_POS_SIZE_PCT) * (1 / entry_p)))"
    using errw_fl by fastforce
  then show ?thesis by simp
qed

lemma sizing_block_sized:
  assumes rp: "get_regime_params regime = Inr rp"
      and "stop_p < entry_p" "0 < entry_p" "0 < total_equity"
  shows "\<exists>z. sizing_block total_equity regime current_tor entry_p stop_p = Inr (Sized z)
           \<and> sz_final_shares z =
               min \<lfloor>fl (fl (total_equity * fl (BASE_1R_PCT * rp_r_multiplier rp))
                        / fl (entry_p - stop_p))\<rfloor>
                   \<lfloor>fl (fl (total_equity * MAX_POS_SIZE_PCT) / entry_p)\<rfloor>
           \<and> sz_final_or_r z =
               fl (fl (py_float (sz_final_shares z) * fl (entry_p - stop_p))
                     / fl (total_equity * fl (BASE_1R_PCT * rp_r_multiplier rp)))"
proof -
  have r: "0 < rp_r_multiplier rp" using rp by (rule regime_multiplier_pos)
  have pct: "0 < fl (BASE_1R_PCT * rp_r_multiplier rp)"
    by (intro fl_pos mult_pos_pos BASE_1R_PCT_pos r)
  have unit: "0 < fl (total_equity * fl (BASE_1R_PCT * rp_r_multiplier rp))"
    by (intro fl_pos mult_pos_pos assms(4) pct)
  have dist: "0 < fl (entry_p - stop_p)" using assms(2) by (intro fl_pos) simp
  have cap: "0 < fl (total_equity * MAX_POS_SIZE_PCT)"
    by (intro fl_pos mult_pos_pos assms(4) MAX_POS_SIZE_PCT_pos)
  have q1: "0 \<le> fl (fl (total_equity * fl (BASE_1R_PCT * rp_r_multiplier rp))
                      / fl (entry_p - stop_p))"
    by (intro less_imp_le fl_pos divide_pos_pos unit dist)
  have q2: "0 \<le> fl (fl (total_equity * MAX_POS_SIZE_PCT) / entry_p)"
    by (intro less_imp_le fl_pos divide_pos_pos cap assms(3))
  show ?thesis
    unfolding sizing_block_def rp bind_err_def fl_div_def Let_def
    using assms(2,3,4) unit dist q1 q2
    by (simp add: py_int_nonneg)
qed

lemma sizing_block_invalid:
  assumes "entry_p \<le> stop_p" "entry_p \<noteq> 0"
  shows "sizing_block total_equity regime current_tor entry_p stop_p = Inr InvalidInput"
  using assms
  by (simp add: sizing_block_def get_regime_params_cases bind_err_def Let_def)

lemma sizing_block_no_sizing:
  assumes "entry_p \<le> stop_p"
  shows "sizing_block total_equity regime current_tor entry_p stop_p \<noteq> Inr (Sized z)"
  using assms
  by (simp add: sizing_block_def get_regime_params_cases bind_err_def Let_def)

lemma get_regime_params_GREEN: "get_regime_params ''GREEN'' = Inr green_params"
  by (simp add: get_regime_params_cases)

lemma counterexample_prices:
  "fl (155 / 100) < fl (16 / 10)" "0 < fl (16 / 10)" "0 < fl (155 / 100)"
  by (simp_all add: fl_eval)

lemma counterexample_theoretical_quot:
  "\<lfloor>fl (fl (10000 * fl (BASE_1R_PCT * rp_r_multiplier green_params))
         / fl (fl (16 / 10) - fl (155 / 100)))\<rfloor> = 1999"
  by (simp add: BASE_1R_PCT_def green_params_def fl_eval)

lemma counterexample_cap_quot:
  "\<lfloor>fl (fl (10000 * MAX_POS_SIZE_PCT) / fl (16 / 10))\<rfloor> = 1250"
  by (simp add: MAX_POS_SIZE_PCT_def fl_eval)

lemma counterexample_exact:
  "min \<lfloor>10000 * (1 / 100) * rp_r_multiplier green_params / (fl (16 / 10) - fl (155 / 100))\<rfloor>
       \<lfloor>10000 * (20 / 100) / fl (16 / 10)\<rfloor> = (1249 :: int)"
  by (simp add: green_params_def fl_eval)

text \<open>
  C6, as stated, fails for the code: the share counts are truncations of quotients
  computed in doubles, not floors of the exact quotients. With equity 10000, regime
  GREEN, and the doubles nearest to 1.60 and 1.55 as entry and stop, the cap quotient
  2000 / 1.6000000000000000888 is 1249.99999999999993, whose floor is 1249; the double
  division rounds it to 1250.0 and the sizer recommends 1250 shares.
\<close>

theorem sizing_block_final_shares_counterexample:
  "(case sizing_block 10000 ''GREEN'' 0 (fl (16 / 10)) (fl (155 / 100)) of
      Inr (Sized z) \<Rightarrow> sz_final_shares z = 1250
    | _ \<Rightarrow> False)
   \<and> min \<lfloor>10000 * (1 / 100) * rp_r_multiplier green_params / (fl (16 / 10) - fl (155 / 100))\<rfloor>
         \<lfloor>10000 * (20 / 100) / fl (16 / 10)\<rfloor> = (1249 :: int)
   \<and> fl (155 / 100) < fl (16 / 10) \<and> 0 < fl (155 / 100)"
proof -
  from sizing_block_sized [OF get_regime_params_GREEN counterexample_prices(1,2), of 10000 0]
  obtain z where z: "sizing_block 10000 ''GREEN'' 0 (fl (16 / 10)) (fl (155 / 100)) = Inr (Sized z)"
    "sz_final_shares z =
       min \<lfloor>fl (fl (10000 * fl (BASE_1R_PCT * rp_r_multiplier green_params))
                / fl (fl (16 / 10) - fl (155 / 100)))\<rfloor>
           \<lfloor>fl (fl (10000 * MAX_POS_SIZE_PCT) / fl (16 / 10))\<rfloor>"
    by auto
  have "sz_final_shares z = 1250"
    unfolding z(2) counterexample_theoretical_quot counterexample_cap_quot by simp
  then have "(case sizing_block 10000 ''GREEN'' 0 (fl (16 / 10)) (fl (155 / 100)) of
      Inr (Sized z) \<Rightarrow> sz_final_shares z = 1250
    | _ \<Rightarrow> False)"
    unfolding z(1) by simp
  with counterexample_exact counterexample_prices show ?thesis by blast
qed


lemma example_theoretical_quot:
  "\<lfloor>fl (fl (10000 * fl (BASE_1R_PCT * rp_r_multiplier green_params)) / fl (100 - 95))\<rfloor> = 20"
  by (simp add: BASE_1R_PCT_def green_params_def fl_eval)

lemma example_cap_quot:
  "\<lfloor>fl (fl (10000 * MAX_POS_SIZE_PCT) / 100)\<rfloor> = 20"
  by (simp add: MAX_POS_SIZE_PCT_def fl_eval)

lemma example_final_or_r:
  "fl (fl (py_float 20 * fl (100 - 95))
         / fl (10000 * fl (BASE_1R_PCT * rp_r_multiplier green_params))) = 1"
  by (simp add: BASE_1R_PCT_def green_params_def fl_eval)

text \<open>
  C6, amended. For an entry price above a positive stop, positive equity and the
  multiplier r of the chosen regime, the sizer returns a sizing whose share count is
  the smaller of floor(q1) and floor(q2), where q1 and q2 are the quotients
  equity * 0.01 * r / (entry - stop) and equity * 0.20 / entry as computed in doubles:
  each is within a relative 2^-50 of its exact value, so the count is the one of the
  exact quotients unless one of them lies that close to a whole number. With equity
  10000, regime GREEN (r = 1), entry 100 and stop 95 it recommends 20 shares occupying
  1.0 R. With an entry price at or below the stop it never gives a sizing, and it gives
  the invalid-input error whenever that entry price is not 0; the input widget admits
  no price below 0.01, so an entry price of 0 does not reach the block.
\<close>

theorem sizing_block_final_shares:
  "(get_regime_params regime = Inr rp \<and> stop_p < entry_p \<and> 0 < stop_p \<and> 0 < total_equity \<longrightarrow>
      (\<exists>z q1 q2. sizing_block total_equity regime current_tor entry_p stop_p = Inr (Sized z)
         \<and> q1 = fl (fl (total_equity * fl (BASE_1R_PCT * rp_r_multiplier rp))
                      / fl (entry_p - stop_p))
         \<and> q2 = fl (fl (total_equity * MAX_POS_SIZE_PCT) / entry_p)
         \<and> sz_final_shares z = min \<lfloor>q1\<rfloor> \<lfloor>q2\<rfloor>
         \<and> \<bar>q1 - total_equity * (1 / 100) * rp_r_multiplier rp / (entry_p - stop_p)\<bar>
             \<le> total_equity * (1 / 100) * rp_r_multiplier rp / (entry_p - stop_p) / 2 ^ 50
         \<and> \<bar>q2 - total_equity * (20 / 100) / entry_p\<bar>
             \<le> total_equity * (20 / 100) / entry_p / 2 ^ 50))
   \<and> (\<exists>z. sizing_block 10000 ''GREEN'' current_tor 100 95 = Inr (Sized z)
         \<and> sz_final_shares z = 20 \<and> sz_final_or_r z = 1)
   \<and> (entry_p \<le> stop_p \<longrightarrow>
        (\<forall>z. sizing_block total_equity regime current_tor entry_p stop_p \<noteq> Inr (Sized z)))
   \<and> (entry_p \<le> stop_p \<and> entry_p \<noteq> 0 \<longrightarrow>
        sizing_block total_equity regime current_tor entry_p stop_p = Inr InvalidInput)"
proof (intro conjI impI)
  assume h: "get_regime_params regime = Inr rp \<and> stop_p < entry_p \<and> 0 < stop_p \<and> 0 < total_equity"
  then have e: "0 < entry_p" by simp
  from h have r: "0 < rp_r_multiplier rp" by (blast intro: regime_multiplier_pos)
  from h e sizing_block_sized [of regime rp stop_p entry_p total_equity current_tor]
  obtain z where z: "sizing_block total_equity regime current_tor entry_p stop_p = Inr (Sized z)"
    "sz_final_shares z =
       min \<lfloor>fl (fl (total_equity * fl (BASE_1R_PCT * rp_r_multiplier rp)) / fl (entry_p - stop_p))\<rfloor>
           \<lfloor>fl (fl (total_equity * MAX_POS_SIZE_PCT) / entry_p)\<rfloor>"
    by blast
  have b1: "\<bar>fl (fl (total_equity * fl (BASE_1R_PCT * rp_r_multiplier rp)) / fl (entry_p - stop_p))
             - total_equity * (1 / 100) * rp_r_multiplier rp / (entry_p - stop_p)\<bar>
           \<le> total_equity * (1 / 100) * rp_r_multiplier rp / (entry_p - stop_p) / 2 ^ 50"
    using h r by (intro errw_bound [OF theoretical_quot_errw]) simp_all
  have b2: "\<bar>fl (fl (total_equity * MAX_POS_SIZE_PCT) / entry_p)
             - total_equity * (20 / 100) / entry_p\<bar>
           \<le> total_equity * (20 / 100) / entry_p / 2 ^ 50"
    using h e by (intro errw_bound [OF cap_quot_errw]) simp_all
  from z b1 b2
  show "\<exists>z q1 q2. sizing_block total_equity regime current_tor entry_p stop_p = Inr (Sized z)
         \<and> q1 = fl (fl (total_equity * fl (BASE_1R_PCT * rp_r_multiplier rp))
                      / fl (entry_p - stop_p))
         \<and> q2 = fl (fl (total_equity * MAX_POS_SIZE_PCT) / entry_p)
         \<and> sz_final_shares z = min \<lfloor>q1\<rfloor> \<lfloor>q2\<rfloor>
         \<and> \<bar>q1 - total_equity * (1 / 100) * rp_r_multiplier rp / (entry_p - stop_p)\<bar>
             \<le> total_equity * (1 / 100) * rp_r_multiplier rp / (entry_p - stop_p) / 2 ^ 50
         \<and> \<bar>q2 - total_equity * (20 / 100) / entry_p\<bar>
             \<le> total_equity * (20 / 100) / entry_p / 2 ^ 50"
    by blast
next
  from sizing_block_sized [OF get_regime_params_GREEN, of 95 100 10000 current_tor]
  obtain z where z: "sizing_block 10000 ''GREEN'' current_tor 100 95 = Inr (Sized z)"
    "sz_final_shares z =
       min \<lfloor>fl (fl (10000 * fl (BASE_1R_PCT * rp_r_multiplier green_params)) / fl (100 - 95))\<rfloor>
           \<lfloor>fl (fl (10000 * MAX_POS_SIZE_PCT) / 100)\<rfloor>"
    "sz_final_or_r z =
       fl (fl (py_float (sz_final_shares z) * fl (100 - 95))
             / fl (10000 * fl (BASE_1R_PCT * rp_r_multiplier green_params)))"
    by auto
  have s: "sz_final_shares z = 20"
    unfolding z(2) example_theoretical_quot example_cap_quot by simp
  have "sz_final_or_r z = 1" unfolding z(3) s by (rule example_final_or_r)
  with z(1) s
  show "\<exists>z. sizing_block 10000 ''GREEN'' current_tor 100 95 = Inr (Sized z)
         \<and> sz_final_shares z = 20 \<and> sz_final_or_r z = 1"
    by blast
next
  assume "entry_p \<le> stop_p"
  then show "\<forall>z. sizing_block total_equity regime current_tor entry_p stop_p \<noteq> Inr (Sized z)"
    by (simp add: sizing_block_no_sizing)
next
  assume "entry_p \<le> stop_p \<and> entry_p \<noteq> 0"
  then show "sizing_block total_equity regime current_tor entry_p stop_p = Inr InvalidInput"
    by (simp add: sizing_block_invalid)
qed

lemma witness_quots:
  "\<lfloor>fl (fl (10000 * fl (BASE_1R_PCT * rp_r_multiplier yellow_params)) / fl (50 - 48))\<rfloor> = 25"
  "\<lfloor>fl (fl (10000 * MAX_POS_SIZE_PCT) / 50)\<rfloor> = 40"
  by (simp_all add: BASE_1R_PCT_def MAX_POS_SIZE_PCT_def yellow_params_def fl_eval)

theorem sizing_block_final_shares_witness:
  "get_regime_params ''YELLOW'' = Inr yellow_params
   \<and> (\<exists>z. sizing_block 10000 ''YELLOW'' 0 50 48 = Inr (Sized z) \<and> sz_final_shares z = 25)
   \<and> sizing_block 10000 ''YELLOW'' 0 95 100 = Inr InvalidInput"
proof -
  have y: "get_regime_params ''YELLOW'' = Inr yellow_params"
    by (simp add: get_regime_params_cases)
  have h: "get_regime_params ''YELLOW'' = Inr yellow_params \<and> (48::real) < 50 \<and> (0::real) < 48
           \<and> (0::real) < 10000"
    using y by simp
  from sizing_block_final_shares [of "''YELLOW''" yellow_params 48 50 10000 0] h
  obtain z q1 q2 where z: "sizing_block 10000 ''YELLOW'' 0 50 48 = Inr (Sized z)"
    "q1 = fl (fl (10000 * fl (BASE_1R_PCT * rp_r_multiplier yellow_params)) / fl (50 - 48))"
    "q2 = fl (fl (10000 * MAX_POS_SIZE_PCT) / 50)"
    "sz_final_shares z = min \<lfloor>q1\<rfloor> \<lfloor>q2\<rfloor>"
    by blast
  have a: "sz_final_shares z = 25" unfolding z(4) z(2) z(3) witness_quots by simp
  have i: "(95::real) \<le> 100 \<and> (95::real) \<noteq> 0" by simp
  have b: "sizing_block 10000 ''YELLOW'' 0 95 100 = Inr InvalidInput"
    using sizing_block_final_shares [of "''YELLOW''" yellow_params 100 95 10000 0] i by blast
  from y z(1) a b show ?thesis by blast
qed

subsection \<open>Expectancy\<close>









text \<open>The whole function on the example: two trades, expectancy 1.75 R, win rate 100.\<close>

lemma example_expectancy:
  "calculate_real_expectancy True example_ledger = (Fin (7 / 4), 100, 2)"
  by (simp add: calculate_real_expectancy_def example_ledger_def total_trade_r_def
      contribution_r_def weight_def total_qty_per_trade_def int_truediv_def fillna_def
      nansum_def nanmean_def gt_zero_def)

text \<open>A weight of \<open>0 / 0\<close> is filled with 0; another quantity over 0 is an infinity.\<close>

lemma weight_zero_total:
  assumes "total_qty_per_trade df (th_trade_id r) = 0"
  shows "weight df r =
           (if th_exit_qty r = 0 then Fin 0 else if 0 < th_exit_qty r then PInf else NInf)"
  using assms by (simp add: weight_def int_truediv_def inf_times_def fillna_def)

text \<open>
  Where the exit quantities of a trade add up to 0, its weights are infinities of
  opposite sign, its total is NaN, and the mean and the count of winners skip it.
\<close>

lemma zero_total_expectancy:
  "calculate_real_expectancy True zero_total_ledger = (Fin 2, 50, 2)"
  by (simp add: calculate_real_expectancy_def zero_total_ledger_def total_trade_r_def
      contribution_r_def weight_def total_qty_per_trade_def int_truediv_def fillna_def
      inf_times_def nansum_def nanmean_def gt_zero_def)

end
